theory Spec2Isabelle
  imports Main "HOL-Library.Word"
begin

section \<open>Package config of the QingCloud SDK: the configuration record and its loaders\<close>

text \<open>
  The theory embeds \<^verbatim>\<open>src/config/config.go\<close>. Go strings and byte slices are
  \<open>string\<close> (lists of bytes). Go's \<open>int\<close> is taken at 64 bits (amd64, arm64); the
  integer fields of the record are \<open>int\<close> and every producer of such a value
  (\<open>Atoi\<close>, the decoder) keeps it inside the 64-bit range, while the one place where the
  code multiplies (\<open>time.Duration(...) * time.Second\<close>) is computed on \<open>64 word\<close>, so that
  it wraps as the machine does. Pointers to fresh \<open>http.Client\<close> values are modelled by
  the value they point to: the identity of the allocation is not represented.
\<close>

subsection \<open>Errors\<close>

datatype num_err = ErrSyntax | ErrRange

datatype error =
    Errorf string
  | URLParseError string
  | NumError string num_err
  | DecodeError string
  | FileIOError string
  | InstallError string
  | Panic string

text \<open>
  \<open>Errorf m\<close> is the value of \<open>fmt.Errorf(m)\<close>. \<open>URLParseError\<close>, \<open>DecodeError\<close>,
  \<open>FileIOError\<close> and \<open>InstallError\<close> stand for the errors of \<open>url.Parse\<close>,
  \<open>utils.YAMLDecode\<close>, \<open>ioutil.ReadFile\<close> and \<open>InstallDefaultUserConfig\<close> and carry the
  text of their \<open>Error()\<close> method. \<open>NumError s k\<close> is \<open>*strconv.NumError\<close> of \<open>Atoi\<close> on
  input \<open>s\<close> (its text quotes \<open>s\<close> as Go quotes printable ASCII). \<open>Panic\<close> is a run-time panic (index out of range), which is not an error
  return in Go but ends the call all the same.
\<close>

definition MissingPortError :: error where
  "MissingPortError = Errorf ''If you use endpoint , you must pass in the port number ''"

fun Error :: "error \<Rightarrow> string" where
  "Error (Errorf m) = m"
| "Error (URLParseError m) = m"
| "Error (NumError s ErrSyntax) = ''strconv.Atoi: parsing \"'' @ s @ ''\": invalid syntax''"
| "Error (NumError s ErrRange) = ''strconv.Atoi: parsing \"'' @ s @ ''\": value out of range''"
| "Error (DecodeError m) = m"
| "Error (FileIOError m) = m"
| "Error (InstallError m) = m"
| "Error (Panic m) = m"

subsection \<open>The Go library functions the package calls\<close>

text \<open>
  \<open>strings.Contains\<close> and \<open>strings.Split\<close>: the package calls both with the
  one-character separator \<open>":"\<close> only, so the separator is a character here.
  \<open>strings.Split\<close> returns the pieces between the separators, one more than there are
  separators, hence never an empty slice.
\<close>

definition strings_Contains :: "string \<Rightarrow> char \<Rightarrow> bool" where
  "strings_Contains s sep = (sep \<in> set s)"

fun strings_Split :: "string \<Rightarrow> char \<Rightarrow> string list" where
  "strings_Split [] sep = [[]]"
| "strings_Split (x # xs) sep =
     (if x = sep then [] # strings_Split xs sep
      else (case strings_Split xs sep of
              [] \<Rightarrow> [[x]]
            | p # ps \<Rightarrow> (x # p) # ps))"

text \<open>
  \<open>strconv.Atoi\<close> (64-bit \<open>int\<close>): an optional sign, then at least one decimal digit
  and nothing else, the value inside \<open>[-2^63, 2^63 - 1]\<close>. The digits are accumulated
  from the left in an unsigned 64-bit value, so that an overflow met before an invalid
  character is reported as \<open>ErrRange\<close>, an invalid character met first as \<open>ErrSyntax\<close>.
\<close>

definition is_digit :: "char \<Rightarrow> bool" where
  "is_digit ch = (48 \<le> (of_char ch :: int) \<and> (of_char ch :: int) \<le> 57)"

fun ParseUint :: "int \<Rightarrow> string \<Rightarrow> num_err + int" where
  "ParseUint n [] = Inr n"
| "ParseUint n (ch # cs) =
     (if \<not> is_digit ch then Inl ErrSyntax
      else if 2 ^ 64 \<le> n * 10 + (of_char ch - 48) then Inl ErrRange
      else ParseUint (n * 10 + (of_char ch - 48)) cs)"

definition Atoi :: "string \<Rightarrow> error + int" where
  "Atoi s =
     (let neg = (s \<noteq> [] \<and> hd s = CHR ''-'');
          body = (if s \<noteq> [] \<and> (hd s = CHR ''-'' \<or> hd s = CHR ''+'') then tl s else s)
      in if body = [] then Inl (NumError s ErrSyntax)
         else (case ParseUint 0 body of
                 Inl k \<Rightarrow> Inl (NumError s k)
               | Inr un \<Rightarrow>
                   if neg then (if 2 ^ 63 < un then Inl (NumError s ErrRange) else Inr (- un))
                   else (if 2 ^ 63 \<le> un then Inl (NumError s ErrRange) else Inr un)))"

text \<open>
  The parts of a parsed \<open>*url.URL\<close> that the package reads. \<open>url_Host\<close> is the field
  \<open>Host\<close> ("host or host:port"); the prefix keeps it apart from the field \<open>Host\<close> of the
  configuration record.
\<close>

record URL =
  url_Scheme :: string
  url_Host :: string
  url_Path :: string

text \<open>
  \<open>URL.Port()\<close> and \<open>URL.Hostname()\<close> of \<open>net/url\<close>: the port is what follows the
  last colon of \<open>Host\<close> when that is all digits (possibly none), the host name is the
  rest, without the square brackets of an IPv6 literal. The package does not call them;
  they say what "the port of the parsed URL" is.
\<close>

definition validOptionalPort :: "string \<Rightarrow> bool" where
  "validOptionalPort port =
     (case port of [] \<Rightarrow> True | ch # cs \<Rightarrow> ch = CHR '':'' \<and> list_all is_digit cs)"

fun LastIndexByte :: "string \<Rightarrow> char \<Rightarrow> nat option" where
  "LastIndexByte [] c = None"
| "LastIndexByte (x # xs) c =
     (case LastIndexByte xs c of
        Some i \<Rightarrow> Some (Suc i)
      | None \<Rightarrow> if x = c then Some 0 else None)"

definition splitHostPort :: "string \<Rightarrow> string \<times> string" where
  "splitHostPort hostPort =
     (let (host, port) =
            (case LastIndexByte hostPort CHR '':'' of
               Some colon \<Rightarrow>
                 if validOptionalPort (drop colon hostPort)
                 then (take colon hostPort, drop (Suc colon) hostPort)
                 else (hostPort, [])
             | None \<Rightarrow> (hostPort, []));
          host = (if host \<noteq> [] \<and> hd host = CHR ''['' \<and> last host = CHR '']''
                  then butlast (tl host) else host)
      in (host, port))"

definition URL_Hostname :: "URL \<Rightarrow> string" where
  "URL_Hostname u = fst (splitHostPort (url_Host u))"

definition URL_Port :: "URL \<Rightarrow> string" where
  "URL_Port u = snd (splitHostPort (url_Host u))"

subsection \<open>The configuration record\<close>

text \<open>
  \<open>time.Duration\<close> is a signed 64-bit count of nanoseconds. An \<open>http.Transport\<close> built by
  this package has only its \<open>Dial\<close> field set, to a closure that calls
  \<open>net.DialTimeout(network, addr, timeout)\<close>: it is determined by \<open>timeout\<close>. An
  \<open>http.Client\<close> has its \<open>Transport\<close> field set to such a transport or left \<open>nil\<close>
  (\<open>&http.Client{}\<close>, which uses the default transport).
\<close>

type_synonym Duration = "64 word"

definition time_Second :: Duration where
  "time_Second = 1000000000"

datatype http_Transport = Transport (Dial_timeout: Duration)

datatype http_Client = Client (Transport_of: "http_Transport option")

record Config =
  AccessKeyID :: string
  SecretAccessKey :: string
  Host :: string
  Port :: int
  Protocol :: string
  URI :: string
  ConnectionRetries :: int
  ConnectionTimeout :: int
  LogLevel :: string
  Zone :: string
  Connection :: "http_Client option"

text \<open>The zero value \<open>&Config{}\<close>.\<close>

definition Config_zero :: Config where
  "Config_zero =
     \<lparr>AccessKeyID = [], SecretAccessKey = [], Host = [], Port = 0, Protocol = [], URI = [],
      ConnectionRetries = 0, ConnectionTimeout = 0, LogLevel = [], Zone = [],
      Connection = None\<rparr>"

subsection \<open>The world outside the record: files and the process-wide logger\<close>

datatype log_line = Error_line string | Warn_line string

record world =
  files :: "string \<rightharpoonup> string"
  log_level :: string
  log_lines :: "log_line list"

text \<open>
  Modelled from the spec: package \<open>logger\<close> is not among the sources; \<open>logger.SetLevel\<close>
  "sets the active log level".
\<close>

definition logger_SetLevel :: "string \<Rightarrow> world \<Rightarrow> world" where
  "logger_SetLevel level w = w\<lparr>log_level := level\<rparr>"

text \<open>
  Modelled from the spec: \<open>logger.Error\<close> (package \<open>logger\<close> is not among the sources)
  emits an error-level line.
\<close>

definition logger_Error :: "string \<Rightarrow> world \<Rightarrow> world" where
  "logger_Error msg w = w\<lparr>log_lines := log_lines w @ [Error_line msg]\<rparr>"

text \<open>
  Modelled from the spec: \<open>logger.Warn\<close> (package \<open>logger\<close> is not among the sources)
  "emits a warning-level notice".
\<close>

definition logger_Warn :: "string \<Rightarrow> world \<Rightarrow> world" where
  "logger_Warn msg w = w\<lparr>log_lines := log_lines w @ [Warn_line msg]\<rparr>"

text \<open>
  \<open>os.Stat\<close> and \<open>ioutil.ReadFile\<close> on a file system that is a map from paths to
  contents: both fail exactly on a path that has no file.
\<close>

definition os_Stat :: "world \<Rightarrow> string \<Rightarrow> error option" where
  "os_Stat w path =
     (case files w path of
        None \<Rightarrow> Some (FileIOError (''stat '' @ path @ '': no such file or directory''))
      | Some _ \<Rightarrow> None)"

definition ioutil_ReadFile :: "world \<Rightarrow> string \<Rightarrow> error + string" where
  "ioutil_ReadFile w path =
     (case files w path of
        None \<Rightarrow> Inl (FileIOError (''open '' @ path @ '': no such file or directory''))
      | Some content \<Rightarrow> Inr content)"

subsection \<open>What the package takes from elsewhere\<close>

text \<open>
  The functions of \<^verbatim>\<open>config.go\<close> use declarations that are not among the sources; they
  are the fields of an environment, and every operation below takes it as its first
  argument:
  \<^item> \<open>YAMLDecode\<close>: \<open>utils.YAMLDecode(content, c)\<close>, which writes into the record behind
    the pointer \<open>c\<close> and returns an error or none: here it returns the record as it
    leaves it, and the error;
  \<^item> \<open>DefaultConfigFileContent\<close>: the built-in default document, a constant;
  \<^item> \<open>url_Parse\<close>: \<open>url.Parse\<close> of the standard library;
  \<^item> \<open>GetUserConfigFilePath\<close> and \<open>getHome\<close>: the path of the user's configuration
    file and the home directory;
  \<^item> \<open>InstallDefaultUserConfig\<close>: writes the user's configuration file; it changes the
    world and returns an error or none.
\<close>

record env =
  YAMLDecode :: "string \<Rightarrow> Config \<Rightarrow> Config \<times> error option"
  DefaultConfigFileContent :: string
  url_Parse :: "string \<Rightarrow> error + URL"
  GetUserConfigFilePath :: string
  getHome :: string
  InstallDefaultUserConfig :: "world \<Rightarrow> world \<times> error option"

subsection \<open>The operations of \<^verbatim>\<open>config.go\<close>\<close>

text \<open>
  A method on \<open>*Config\<close> takes the record and the world and returns its error (or none),
  the record as it leaves it, and the world. A constructor returns an error or the new
  record, and the world.
\<close>

definition LoadDefaultConfig :: "env \<Rightarrow> Config \<Rightarrow> world \<Rightarrow> error option \<times> Config \<times> world" where
  "LoadDefaultConfig e c w =
     (case YAMLDecode e (DefaultConfigFileContent e) c of
        (c', Some err) \<Rightarrow> (Some err, c', logger_Error (''Config parse error: '' @ Error err) w)
      | (c', None) \<Rightarrow> (None, c', logger_SetLevel (LogLevel c') w))"

definition dial_client :: "int \<Rightarrow> http_Client" where
  "dial_client seconds = Client (Some (Transport (word_of_int seconds * time_Second)))"

text \<open>
  The timeout that the dialer of the record's client passes to \<open>net.DialTimeout\<close>, in
  nanoseconds (the signed reading of the \<open>Duration\<close>); \<open>None\<close> when there is no client or
  the client has no transport of its own.
\<close>

definition dial_timeout_ns :: "Config \<Rightarrow> int option" where
  "dial_timeout_ns c =
     (case Connection c of
        Some (Client (Some (Transport timeout))) \<Rightarrow> Some (sint timeout)
      | _ \<Rightarrow> None)"

definition NewDefault :: "env \<Rightarrow> world \<Rightarrow> (error + Config) \<times> world" where
  "NewDefault e w =
     (case LoadDefaultConfig e Config_zero w of
        (Some err, config, w') \<Rightarrow> (Inl err, w')
      | (None, config, w') \<Rightarrow>
          (Inr (config\<lparr>Connection := Some (dial_client (ConnectionTimeout config))\<rparr>), w'))"

definition New :: "env \<Rightarrow> string \<Rightarrow> string \<Rightarrow> world \<Rightarrow> (error + Config) \<times> world" where
  "New e accessKeyID secretAccessKey w =
     (case NewDefault e w of
        (Inl err, w') \<Rightarrow> (Inl err, w')
      | (Inr config, w') \<Rightarrow>
          (Inr (config\<lparr>AccessKeyID := accessKeyID, SecretAccessKey := secretAccessKey,
                       Connection := Some (Client None)\<rparr>), w'))"

definition NewWithEndpoint ::
  "env \<Rightarrow> string \<Rightarrow> string \<Rightarrow> string \<Rightarrow> world \<Rightarrow> (error + Config) \<times> world" where
  "NewWithEndpoint e accessKeyID secretAccessKey endpoint w =
     (case url_Parse e endpoint of
        Inl err \<Rightarrow> (Inl err, w)
      | Inr qcUrl \<Rightarrow>
          if \<not> strings_Contains (url_Host qcUrl) CHR '':'' then (Inl MissingPortError, w)
          else (case NewDefault e w of
                  (Inl err, w') \<Rightarrow> (Inl err, w')
                | (Inr config, w') \<Rightarrow>
                    (case strings_Split (url_Host qcUrl) CHR '':'' of
                       [] \<Rightarrow> (Inl (Panic ''index out of range''), w')
                     | [h] \<Rightarrow> (Inl (Panic ''index out of range''), w')
                     | h # p # _ \<Rightarrow>
                         (case Atoi p of
                            Inl err \<Rightarrow> (Inl err, w')
                          | Inr port \<Rightarrow>
                              (Inr (config\<lparr>AccessKeyID := accessKeyID,
                                           SecretAccessKey := secretAccessKey,
                                           Host := h, Port := port,
                                           Protocol := url_Scheme qcUrl,
                                           URI := url_Path qcUrl,
                                           Connection := Some (Client None)\<rparr>), w')))))"

definition LoadConfigFromContent ::
  "env \<Rightarrow> string \<Rightarrow> Config \<Rightarrow> world \<Rightarrow> error option \<times> Config \<times> world" where
  "LoadConfigFromContent e content c w =
     (case LoadDefaultConfig e c w of
        (_, c1, w1) \<Rightarrow>
          (case YAMLDecode e content c1 of
             (c2, Some err) \<Rightarrow>
               (Some err, c2, logger_Error (''Config parse error: '' @ Error err) w1)
           | (c2, None) \<Rightarrow>
               (None, c2\<lparr>Connection := Some (dial_client (ConnectionTimeout c2))\<rparr>,
                logger_SetLevel (LogLevel c2) w1)))"

definition LoadConfigFromFilepath ::
  "env \<Rightarrow> string \<Rightarrow> Config \<Rightarrow> world \<Rightarrow> error option \<times> Config \<times> world" where
  "LoadConfigFromFilepath e filepath c w =
     (let filepath = (if take 2 filepath = ''~/''
                      then getHome e @ ''/'' @ drop 2 filepath else filepath)
      in case ioutil_ReadFile w filepath of
           Inl err \<Rightarrow> (Some err, c, logger_Error (''File not found: '' @ filepath) w)
         | Inr configYAML \<Rightarrow> LoadConfigFromContent e configYAML c w)"

definition LoadUserConfig :: "env \<Rightarrow> Config \<Rightarrow> world \<Rightarrow> error option \<times> Config \<times> world" where
  "LoadUserConfig e c w =
     (let w1 = (case os_Stat w (GetUserConfigFilePath e) of
                  Some err \<Rightarrow>
                    fst (InstallDefaultUserConfig e
                           (logger_Warn (''Installing default config file to \"''
                                         @ GetUserConfigFilePath e @ ''\"'') w))
                | None \<Rightarrow> w)
      in LoadConfigFromFilepath e (GetUserConfigFilePath e) c w1)"

text \<open>
  Two pieces of the loaders above, named for the statements about them: the path that
  \<open>LoadConfigFromFilepath\<close> reads (a leading \<open>~/\<close> replaced by the home directory), and
  the world in which \<open>LoadUserConfig\<close> loads the user's file (the one the installer
  leaves when \<open>os.Stat\<close> fails on the user's path, the given one otherwise).
\<close>

definition expanded_path :: "env \<Rightarrow> string \<Rightarrow> string" where
  "expanded_path e filepath =
     (if take 2 filepath = ''~/'' then getHome e @ ''/'' @ drop 2 filepath else filepath)"

definition world_after_install :: "env \<Rightarrow> world \<Rightarrow> world" where
  "world_after_install e w =
     (case os_Stat w (GetUserConfigFilePath e) of
        Some err \<Rightarrow>
          fst (InstallDefaultUserConfig e
                 (logger_Warn (''Installing default config file to \"''
                               @ GetUserConfigFilePath e @ ''\"'') w))
      | None \<Rightarrow> w)"

subsection \<open>The decoder, from the specification\<close>

text \<open>
  \<open>utils.YAMLDecode\<close> is not among the sources; the decoder below is modelled from the
  specification. The input is "a structured key\<rightarrow>value document with recognized keys"
  \<open>qy_access_key_id\<close>, \<open>qy_secret_access_key\<close>, \<open>host\<close>, \<open>port\<close>, \<open>protocol\<close>,
  \<open>uri\<close>, \<open>connection_retries\<close>, \<open>connection_timeout\<close>, \<open>log_level\<close>, \<open>zone\<close>;
  "unrecognized keys are ignored; missing keys retain prior values"; the decode "fails
  with \<open>DecodeError\<close> if bytes are not valid structured configuration" and "is rejected
  as a whole if malformed".

  A parsed document is the list of its keys with their scalar values, in the order of
  the text.
\<close>

type_synonym document = "(string \<times> string) list"

text \<open>
  Modelled from the spec: the value of a key of an integer field (type \<open>int\<close> in the
  record) has to be an integer that fits the field.
\<close>

definition int_value :: "string \<Rightarrow> int option" where
  "int_value v = (case Atoi v of Inl _ \<Rightarrow> None | Inr n \<Rightarrow> Some n)"

text \<open>
  Modelled from the spec: one entry of the document written into the record. A
  recognized key overwrites its field; an unrecognized key is ignored; \<open>None\<close> when the
  value does not fit the field.
\<close>

definition set_key :: "string \<Rightarrow> string \<Rightarrow> Config \<Rightarrow> Config option" where
  "set_key k v c =
     (if k = ''qy_access_key_id'' then Some (c\<lparr>AccessKeyID := v\<rparr>)
      else if k = ''qy_secret_access_key'' then Some (c\<lparr>SecretAccessKey := v\<rparr>)
      else if k = ''host'' then Some (c\<lparr>Host := v\<rparr>)
      else if k = ''port'' then map_option (\<lambda>n. c\<lparr>Port := n\<rparr>) (int_value v)
      else if k = ''protocol'' then Some (c\<lparr>Protocol := v\<rparr>)
      else if k = ''uri'' then Some (c\<lparr>URI := v\<rparr>)
      else if k = ''connection_retries''
        then map_option (\<lambda>n. c\<lparr>ConnectionRetries := n\<rparr>) (int_value v)
      else if k = ''connection_timeout''
        then map_option (\<lambda>n. c\<lparr>ConnectionTimeout := n\<rparr>) (int_value v)
      else if k = ''log_level'' then Some (c\<lparr>LogLevel := v\<rparr>)
      else if k = ''zone'' then Some (c\<lparr>Zone := v\<rparr>)
      else Some c)"

text \<open>
  Modelled from the spec: the entries written one after the other, so that a later
  occurrence of a key overwrites an earlier one; \<open>None\<close> as soon as one entry fails.
\<close>

fun decode_entries :: "document \<Rightarrow> Config \<Rightarrow> Config option" where
  "decode_entries [] c = Some c"
| "decode_entries ((k, v) # d) c =
     (case set_key k v c of
        None \<Rightarrow> None
      | Some c' \<Rightarrow> decode_entries d c')"

text \<open>
  Modelled from the spec: \<open>utils.YAMLDecode\<close>, which is not among the sources. Reading
  the bytes as a document is the work of the YAML library (outside the specification):
  it is the parameter \<open>parse\<close>, \<open>None\<close> on bytes that are no document. The decode is
  "rejected as a whole if malformed": on any failure the record is returned as it was.
\<close>

definition YAMLDecode_spec ::
  "(string \<Rightarrow> document option) \<Rightarrow> string \<Rightarrow> Config \<Rightarrow> Config \<times> error option" where
  "YAMLDecode_spec parse content c =
     (case parse content of
        None \<Rightarrow> (c, Some (DecodeError ''yaml: not a structured document''))
      | Some d \<Rightarrow>
          (case decode_entries d c of
             None \<Rightarrow> (c, Some (DecodeError ''yaml: cannot decode into int''))
           | Some c' \<Rightarrow> (c', None)))"

text \<open>
  What the specification says a decode does to each field, for comparison with
  \<open>decode_entries\<close>: "keys present overwrite", the last occurrence of a key counting;
  "missing keys retain prior values"; keys that are not among the ten do not occur in it
  at all. \<open>well_typed\<close> says that the keys of the three integer fields carry integers.
\<close>

definition int_key :: "string \<Rightarrow> bool" where
  "int_key k = (k = ''port'' \<or> k = ''connection_retries'' \<or> k = ''connection_timeout'')"

fun well_typed :: "document \<Rightarrow> bool" where
  "well_typed [] = True"
| "well_typed ((k, v) # d) =
     ((if int_key k then int_value v \<noteq> None else True) \<and> well_typed d)"

definition str_of :: "string \<Rightarrow> document \<Rightarrow> string \<Rightarrow> string" where
  "str_of k d old = (case map_of (rev d) k of None \<Rightarrow> old | Some v \<Rightarrow> v)"

definition int_of :: "string \<Rightarrow> document \<Rightarrow> int \<Rightarrow> int" where
  "int_of k d old =
     (case map_of (rev d) k of
        None \<Rightarrow> old
      | Some v \<Rightarrow> (case int_value v of None \<Rightarrow> old | Some n \<Rightarrow> n))"

definition overlay :: "document \<Rightarrow> Config \<Rightarrow> Config" where
  "overlay d c =
     \<lparr>AccessKeyID = str_of ''qy_access_key_id'' d (AccessKeyID c),
      SecretAccessKey = str_of ''qy_secret_access_key'' d (SecretAccessKey c),
      Host = str_of ''host'' d (Host c),
      Port = int_of ''port'' d (Port c),
      Protocol = str_of ''protocol'' d (Protocol c),
      URI = str_of ''uri'' d (URI c),
      ConnectionRetries = int_of ''connection_retries'' d (ConnectionRetries c),
      ConnectionTimeout = int_of ''connection_timeout'' d (ConnectionTimeout c),
      LogLevel = str_of ''log_level'' d (LogLevel c),
      Zone = str_of ''zone'' d (Zone c),
      Connection = Connection c\<rparr>"

text \<open>
  The document a decode applies: the parsed one when the bytes are a well-typed
  document, the empty one when they are rejected.
\<close>

definition layer :: "(string \<Rightarrow> document option) \<Rightarrow> string \<Rightarrow> document" where
  "layer parse content =
     (case parse content of
        None \<Rightarrow> []
      | Some d \<Rightarrow> if well_typed d then d else [])"

text \<open>
  Modelled from the spec: \<open>InstallDefaultUserConfig\<close> is not among the sources; it
  "installs a copy of the built-in default document at that path".
\<close>

definition install_copy :: "string \<Rightarrow> string \<Rightarrow> world \<Rightarrow> world \<times> error option" where
  "install_copy path content w = (w\<lparr>files := (files w)(path \<mapsto> content)\<rparr>, None)"

subsection \<open>A concrete environment for the examples\<close>

text \<open>
  The examples below run on documents of the flat form the specification shows
  (\<open>host: example.com\<close>, one \<open>key: value\<close> per line, comment and blank lines, values
  optionally quoted) and on endpoints of the form \<open>scheme://host:port[/path]\<close>
  ("Endpoint URL form" of the specification). \<open>flat_yaml\<close> and \<open>endpoint_Parse\<close> read
  exactly these forms and reject everything else; the theorems themselves hold for every
  parser.
\<close>

text \<open>Spaces removed at both ends.\<close>

definition trim :: "string \<Rightarrow> string" where
  "trim s = rev (dropWhile (\<lambda>ch. ch = CHR '' '') (rev (dropWhile (\<lambda>ch. ch = CHR '' '') s)))"

text \<open>A value without its quotes; \<open>None\<close> when an opening quote is not closed.\<close>

definition unquote :: "string \<Rightarrow> string option" where
  "unquote v =
     (if v \<noteq> [] \<and> (hd v = CHR 0x27 \<or> hd v = CHR 0x22)
      then (if 2 \<le> length v \<and> last v = hd v then Some (butlast (tl v)) else None)
      else Some v)"

datatype flat_line = Blank | Entry string string | Malformed

text \<open>
  One line: blank or a comment, \<open>key: value\<close> (a space or the end of the line after the
  colon), or malformed.
\<close>

definition parse_line :: "string \<Rightarrow> flat_line" where
  "parse_line l =
     (let t = trim l in
      if t = [] \<or> hd t = CHR ''#'' then Blank
      else
        (let k = takeWhile (\<lambda>ch. ch \<noteq> CHR '':'') t;
             r = dropWhile (\<lambda>ch. ch \<noteq> CHR '':'') t
         in if k = [] \<or> r = [] then Malformed
            else if tl r \<noteq> [] \<and> hd (tl r) \<noteq> CHR '' '' then Malformed
            else (case unquote (trim (tl r)) of
                    None \<Rightarrow> Malformed
                  | Some v \<Rightarrow> Entry (trim k) v)))"

fun collect_lines :: "flat_line list \<Rightarrow> document option" where
  "collect_lines [] = Some []"
| "collect_lines (Blank # ls) = collect_lines ls"
| "collect_lines (Entry k v # ls) = map_option (\<lambda>d. (k, v) # d) (collect_lines ls)"
| "collect_lines (Malformed # ls) = None"

text \<open>
  Modelled from the spec: a reader of the bytes of a "structured key\<rightarrow>value document" in
  the flat form of the specification's example; \<open>None\<close> on anything else.
\<close>

definition flat_yaml :: "string \<Rightarrow> document option" where
  "flat_yaml content = collect_lines (map parse_line (strings_Split content CHR 0x0A))"

fun split_scheme :: "string \<Rightarrow> (string \<times> string) option" where
  "split_scheme [] = None"
| "split_scheme (ch # cs) =
     (if take 3 (ch # cs) = ''://'' then Some ([], drop 2 cs)
      else map_option (\<lambda>(s, r). (ch # s, r)) (split_scheme cs))"

text \<open>
  Modelled from the spec: \<open>url.Parse\<close> on the "Endpoint URL form"
  \<open>scheme://host:port[/path]\<close>: the scheme before \<open>://\<close>, then \<open>Host\<close> up to the
  first slash, then the path; an error on anything else.
\<close>

definition endpoint_Parse :: "string \<Rightarrow> error + URL" where
  "endpoint_Parse endpoint =
     (case split_scheme endpoint of
        None \<Rightarrow> Inl (URLParseError (''parse '' @ endpoint @ '': not scheme://host:port/path''))
      | Some (s, r) \<Rightarrow>
          if s = [] \<or> CHR '' '' \<in> set r
          then Inl (URLParseError (''parse '' @ endpoint @ '': not scheme://host:port/path''))
          else Inr \<lparr>url_Scheme = s,
                    url_Host = takeWhile (\<lambda>ch. ch \<noteq> CHR ''/'') r,
                    url_Path = dropWhile (\<lambda>ch. ch \<noteq> CHR ''/'') r\<rparr>)"

text \<open>A built-in default document for the examples, with \<open>connection_timeout: 30\<close>.\<close>

definition example_default :: string where
  "example_default =
     ''# services configuration\<newline>'' @
     ''qy_access_key_id: 'ACCESS_KEY_ID'\<newline>'' @
     ''qy_secret_access_key: 'SECRET_ACCESS_KEY'\<newline>'' @
     ''\<newline>'' @
     ''host: 'api.qingcloud.com'\<newline>'' @
     ''port: 443\<newline>'' @
     ''protocol: 'https'\<newline>'' @
     ''uri: '/iaas'\<newline>'' @
     ''connection_retries: 3\<newline>'' @
     ''connection_timeout: 30\<newline>'' @
     ''log_level: 'warn'\<newline>''"

definition example_user_path :: string where
  "example_user_path = ''/home/user/.qingcloud/config.yaml''"

definition example_env :: "string \<Rightarrow> env" where
  "example_env builtin =
     \<lparr>YAMLDecode = YAMLDecode_spec flat_yaml,
      DefaultConfigFileContent = builtin,
      url_Parse = endpoint_Parse,
      GetUserConfigFilePath = example_user_path,
      getHome = ''/home/user'',
      InstallDefaultUserConfig = install_copy example_user_path builtin\<rparr>"

definition empty_world :: world where
  "empty_world = \<lparr>files = Map.empty, log_level = [], log_lines = []\<rparr>"

text \<open>The documents of the example of the specification.\<close>

definition spec_default :: string where
  "spec_default =
     ''host: qingcloud.com\<newline>port: 443\<newline>protocol: https\<newline>connection_timeout: 15''"

definition spec_content :: string where
  "spec_content = ''host: example.com\<newline>port: 4000\<newline>protocol: https''"

text \<open>
  Two installers that fail: one that writes nothing, and one whose write stops after the
  first \<open>n\<close> bytes (a full disk), leaving a truncated file behind.
\<close>

definition install_nothing :: "world \<Rightarrow> world \<times> error option" where
  "install_nothing w = (w, Some (InstallError ''mkdir: permission denied''))"

definition install_truncated :: "string \<Rightarrow> string \<Rightarrow> nat \<Rightarrow> world \<Rightarrow> world \<times> error option" where
  "install_truncated path content n w =
     (w\<lparr>files := (files w)(path \<mapsto> take n content)\<rparr>,
      Some (InstallError ''write: no space left on device''))"

section \<open>Properties\<close>

subsection \<open>The library functions\<close>

lemma strings_Split_not_Nil: "strings_Split s sep \<noteq> []"
  by (induction s) (auto split: list.splits)

lemma strings_Split_no_sep: "sep \<notin> set s \<Longrightarrow> strings_Split s sep = [s]"
  by (induction s) auto

lemma strings_Split_first:
  "sep \<notin> set h \<Longrightarrow> strings_Split (h @ sep # r) sep = h # strings_Split r sep"
  by (induction h) (auto split: list.splits)

subsection \<open>The decoder of the specification is an overlay\<close>

lemma str_of_Nil [simp]: "str_of k [] old = old"
  by (simp add: str_of_def)

lemma int_of_Nil [simp]: "int_of k [] old = old"
  by (simp add: int_of_def)

lemma overlay_Nil [simp]: "overlay [] c = c"
  by (simp add: overlay_def)

lemma str_of_Cons: "str_of k ((k', v) # d) old = str_of k d (if k' = k then v else old)"
  by (auto simp: str_of_def map_add_def split: option.splits)

lemma well_typed_mem:
  "well_typed d \<Longrightarrow> (k, v) \<in> set d \<Longrightarrow> int_key k \<Longrightarrow> int_value v \<noteq> None"
  by (induction d) auto

lemma int_of_Cons:
  assumes "well_typed d" and "int_key k"
  shows "int_of k ((k', v) # d) old =
         int_of k d (if k' = k then (case int_value v of None \<Rightarrow> old | Some n \<Rightarrow> n) else old)"
proof (cases "map_of (rev d) k")
  case None
  then show ?thesis by (auto simp: int_of_def map_add_def split: option.splits)
next
  case (Some x)
  then have "(k, x) \<in> set d" using map_of_SomeD [of "rev d" k x] by simp
  then have "int_value x \<noteq> None" using assms well_typed_mem by blast
  then show ?thesis using Some by (auto simp: int_of_def map_add_def split: option.splits)
qed

lemma int_keys [simp]:
  "int_key ''port''" "int_key ''connection_retries''" "int_key ''connection_timeout''"
  by (simp_all add: int_key_def)

lemma overlay_Cons:
  assumes "well_typed d"
  shows "overlay ((k, v) # d) c =
         overlay d
           (c\<lparr>AccessKeyID := if k = ''qy_access_key_id'' then v else AccessKeyID c,
              SecretAccessKey := if k = ''qy_secret_access_key'' then v else SecretAccessKey c,
              Host := if k = ''host'' then v else Host c,
              Port := if k = ''port'' then (case int_value v of None \<Rightarrow> Port c | Some n \<Rightarrow> n)
                      else Port c,
              Protocol := if k = ''protocol'' then v else Protocol c,
              URI := if k = ''uri'' then v else URI c,
              ConnectionRetries :=
                if k = ''connection_retries''
                then (case int_value v of None \<Rightarrow> ConnectionRetries c | Some n \<Rightarrow> n)
                else ConnectionRetries c,
              ConnectionTimeout :=
                if k = ''connection_timeout''
                then (case int_value v of None \<Rightarrow> ConnectionTimeout c | Some n \<Rightarrow> n)
                else ConnectionTimeout c,
              LogLevel := if k = ''log_level'' then v else LogLevel c,
              Zone := if k = ''zone'' then v else Zone c\<rparr>)"
  unfolding overlay_def
  by (simp add: str_of_Cons int_of_Cons [OF assms] split del: if_split)

lemma set_key_overlay:
  assumes "well_typed d" and "set_key k v c = Some c'"
  shows "overlay ((k, v) # d) c = overlay d c'"
proof -
  have "c' =
           (c\<lparr>AccessKeyID := if k = ''qy_access_key_id'' then v else AccessKeyID c,
              SecretAccessKey := if k = ''qy_secret_access_key'' then v else SecretAccessKey c,
              Host := if k = ''host'' then v else Host c,
              Port := if k = ''port'' then (case int_value v of None \<Rightarrow> Port c | Some n \<Rightarrow> n)
                      else Port c,
              Protocol := if k = ''protocol'' then v else Protocol c,
              URI := if k = ''uri'' then v else URI c,
              ConnectionRetries :=
                if k = ''connection_retries''
                then (case int_value v of None \<Rightarrow> ConnectionRetries c | Some n \<Rightarrow> n)
                else ConnectionRetries c,
              ConnectionTimeout :=
                if k = ''connection_timeout''
                then (case int_value v of None \<Rightarrow> ConnectionTimeout c | Some n \<Rightarrow> n)
                else ConnectionTimeout c,
              LogLevel := if k = ''log_level'' then v else LogLevel c,
              Zone := if k = ''zone'' then v else Zone c\<rparr>)"
    using assms(2) unfolding set_key_def
    by (auto split: if_splits)
  then show ?thesis using overlay_Cons [OF assms(1)] by simp
qed

lemma set_key_None: "set_key k v c = None \<longleftrightarrow> (int_key k \<and> int_value v = None)"
  unfolding set_key_def int_key_def by simp

lemma decode_entries_overlay:
  "decode_entries d c = (if well_typed d then Some (overlay d c) else None)"
proof (induction d arbitrary: c)
  case Nil
  show ?case by simp
next
  case (Cons kv d)
  obtain k v where kv: "kv = (k, v)" by (cases kv)
  show ?case
  proof (cases "set_key k v c")
    case None
    then have "\<not> well_typed (kv # d)" using kv by (simp add: set_key_None)
    then show ?thesis using kv None by simp
  next
    case (Some c')
    then have ok: "\<not> (int_key k \<and> int_value v = None)"
      using set_key_None [of k v c] by simp
    show ?thesis
    proof (cases "well_typed d")
      case True
      then show ?thesis
        using kv Some ok Cons.IH [of c'] set_key_overlay [OF True Some] by auto
    next
      case False
      then show ?thesis using kv Some Cons.IH [of c'] by simp
    qed
  qed
qed

lemma str_of_twice:
  "str_of k d (str_of k d' (str_of k d (str_of k d' x))) = str_of k d (str_of k d' x)"
  by (simp add: str_of_def split: option.splits)

lemma int_of_twice:
  "int_of k d (int_of k d' (int_of k d (int_of k d' x))) = int_of k d (int_of k d' x)"
  by (simp add: int_of_def split: option.splits)

lemma overlay_twice:
  "overlay d (overlay d' (overlay d (overlay d' c))) = overlay d (overlay d' c)"
  by (simp add: overlay_def str_of_twice int_of_twice)

lemma overlay_Connection:
  "overlay d (c\<lparr>Connection := x\<rparr>) = (overlay d c)\<lparr>Connection := x\<rparr>"
  by (simp add: overlay_def)

lemma YAMLDecode_spec_record:
  "fst (YAMLDecode_spec parse content c) = overlay (layer parse content) c"
  by (simp add: YAMLDecode_spec_def layer_def decode_entries_overlay split: option.splits)

lemma YAMLDecode_spec_error:
  "snd (YAMLDecode_spec parse content c) = snd (YAMLDecode_spec parse content c')"
  by (simp add: YAMLDecode_spec_def decode_entries_overlay split: option.splits)

subsection \<open>The constructors\<close>

lemma NewDefault_decoded:
  "YAMLDecode e (DefaultConfigFileContent e) Config_zero = (d, None) \<Longrightarrow>
   NewDefault e w =
     (Inr (d\<lparr>Connection := Some (dial_client (ConnectionTimeout d))\<rparr>),
      logger_SetLevel (LogLevel d) w)"
  by (simp add: NewDefault_def LoadDefaultConfig_def)

lemma NewDefault_failed:
  "YAMLDecode e (DefaultConfigFileContent e) Config_zero = (d, Some err) \<Longrightarrow>
   NewDefault e w = (Inl err, logger_Error (''Config parse error: '' @ Error err) w)"
  by (simp add: NewDefault_def LoadDefaultConfig_def)

lemma ParseUint_digits: "ParseUint n cs = Inr m \<Longrightarrow> list_all is_digit cs"
  by (induction n cs rule: ParseUint.induct) (auto split: if_splits)

lemma colon_not_digit: "\<not> is_digit CHR '':''"
  by (simp add: is_digit_def)

lemma Atoi_no_colon:
  assumes "Atoi p = Inr n"
  shows "CHR '':'' \<notin> set p"
proof
  assume colon: "CHR '':'' \<in> set p"
  define body where "body = (if p \<noteq> [] \<and> (hd p = CHR ''-'' \<or> hd p = CHR ''+'') then tl p else p)"
  have "\<exists>m. ParseUint 0 body = Inr m"
    using assms unfolding Atoi_def body_def Let_def
    by (auto split: if_splits sum.splits)
  then have "list_all is_digit body" using ParseUint_digits by blast
  moreover have "CHR '':'' \<in> set body"
    using colon unfolding body_def by (cases p) auto
  ultimately show False using colon_not_digit by (auto simp: list_all_iff)
qed

text \<open>
  On a \<open>Host\<close> of the ordinary form \<open>host:port\<close> (digits after the colon, the host not
  in square brackets) \<open>URL.Hostname()\<close> and \<open>URL.Port()\<close> are its two sides.
\<close>

lemma LastIndexByte_absent: "c \<notin> set s \<Longrightarrow> LastIndexByte s c = None"
  by (induction s) auto

lemma LastIndexByte_last:
  "c \<notin> set p \<Longrightarrow> LastIndexByte (h @ c # p) c = Some (length h)"
  by (induction h) (auto simp: LastIndexByte_absent)

lemma splitHostPort_host_port:
  assumes "list_all is_digit p"
    and "\<not> (h \<noteq> [] \<and> hd h = CHR ''['' \<and> last h = CHR '']'')"
  shows "splitHostPort (h @ CHR '':'' # p) = (h, p)"
proof -
  have "CHR '':'' \<notin> set p"
    using assms(1) colon_not_digit by (auto simp: list_all_iff)
  then have "LastIndexByte (h @ CHR '':'' # p) CHR '':'' = Some (length h)"
    by (rule LastIndexByte_last)
  then show ?thesis
    using assms by (auto simp: splitHostPort_def validOptionalPort_def)
qed

subsection \<open>C1: the fields that \<open>NewWithEndpoint\<close> takes from the endpoint\<close>

text \<open>
  C1. For every endpoint that parses as a valid URL with an explicit port,
  \<open>NewWithEndpoint\<close> is to succeed with \<open>Host\<close>, \<open>Port\<close>, \<open>Protocol\<close> and \<open>URI\<close> equal
  to the host, the port, the scheme and the path of the parsed URL. The code does not
  keep this on an IPv6 literal: under \<open>// get host and port\<close> it takes the first two
  pieces of \<open>Host\<close> between colons. The endpoint \<open>http://[2001:470::1]:8080/iaas\<close> is
  valid, its host name is \<open>2001:470::1\<close> and its port \<open>8080\<close>; the call succeeds and
  returns a record with \<open>Host\<close> \<open>[2001\<close> and \<open>Port\<close> 470.
\<close>

theorem NewWithEndpoint_ipv6_wrong_host_port:
  "url_Parse (example_env example_default) ''http://[2001:470::1]:8080/iaas'' =
     Inr \<lparr>url_Scheme = ''http'', url_Host = ''[2001:470::1]:8080'', url_Path = ''/iaas''\<rparr>
   \<and> URL_Hostname \<lparr>url_Scheme = ''http'', url_Host = ''[2001:470::1]:8080'',
                    url_Path = ''/iaas''\<rparr> = ''2001:470::1''
   \<and> URL_Port \<lparr>url_Scheme = ''http'', url_Host = ''[2001:470::1]:8080'',
                url_Path = ''/iaas''\<rparr> = ''8080''
   \<and> fst (NewWithEndpoint (example_env example_default) ''KEY'' ''SECRET''
            ''http://[2001:470::1]:8080/iaas'' empty_world) =
       Inr \<lparr>AccessKeyID = ''KEY'', SecretAccessKey = ''SECRET'',
            Host = ''[2001'', Port = 470, Protocol = ''http'', URI = ''/iaas'',
            ConnectionRetries = 3, ConnectionTimeout = 30, LogLevel = ''warn'', Zone = [],
            Connection = Some (Client None)\<rparr>"
  by code_simp

text \<open>
  Where the \<open>Host\<close> of the parsed URL is exactly \<open>hostname:port\<close> with a host name
  that has no colon, the code does what is asked of it: when \<open>Atoi\<close> accepts the port
  (decimal digits, inside the range of \<open>int\<close>) and the built-in default document
  decodes, \<open>NewWithEndpoint\<close> succeeds, and the record has \<open>Host\<close>, \<open>Port\<close>, \<open>Protocol\<close>
  and \<open>URI\<close> equal to the host name, the number of the port, the scheme and the path of
  the parsed URL; the credentials are the arguments, the other fields are the decoded
  defaults, the client is \<open>&http.Client{}\<close>.
\<close>

lemma NewWithEndpoint_host_port:
  assumes "url_Parse e endpoint = Inr u"
    and "url_Host u = URL_Hostname u @ CHR '':'' # URL_Port u"
    and "CHR '':'' \<notin> set (URL_Hostname u)"
    and "Atoi (URL_Port u) = Inr port"
    and "YAMLDecode e (DefaultConfigFileContent e) Config_zero = (d, None)"
  shows "fst (NewWithEndpoint e accessKeyID secretAccessKey endpoint w) =
         Inr (d\<lparr>AccessKeyID := accessKeyID, SecretAccessKey := secretAccessKey,
                 Host := URL_Hostname u, Port := port,
                 Protocol := url_Scheme u, URI := url_Path u,
                 Connection := Some (Client None)\<rparr>)"
proof -
  have "CHR '':'' \<notin> set (URL_Port u)"
    using assms(4) by (rule Atoi_no_colon)
  then have "strings_Split (url_Host u) CHR '':'' = [URL_Hostname u, URL_Port u]"
    using assms(3) strings_Split_first [OF assms(3), of "URL_Port u"]
    by (simp add: assms(2) [symmetric] strings_Split_no_sep)
  moreover have "strings_Contains (url_Host u) CHR '':''"
    using arg_cong [OF assms(2), of set] by (simp add: strings_Contains_def)
  ultimately show ?thesis
    using assms(1,4) NewDefault_decoded [OF assms(5)]
    by (simp add: NewWithEndpoint_def)
qed

text \<open>The example environment decodes its built-in default document.\<close>

lemma example_default_decoded:
  "YAMLDecode (example_env example_default)
     (DefaultConfigFileContent (example_env example_default)) Config_zero =
   (\<lparr>AccessKeyID = ''ACCESS_KEY_ID'', SecretAccessKey = ''SECRET_ACCESS_KEY'',
     Host = ''api.qingcloud.com'', Port = 443, Protocol = ''https'', URI = ''/iaas'',
     ConnectionRetries = 3, ConnectionTimeout = 30, LogLevel = ''warn'', Zone = [],
     Connection = None\<rparr>, None)"
  by code_simp

text \<open>The endpoint \<open>https://api.example.com:8443/iaas\<close> in the example environment.\<close>

lemma NewWithEndpoint_host_port_example:
  "url_Parse (example_env example_default) ''https://api.example.com:8443/iaas'' =
     Inr \<lparr>url_Scheme = ''https'', url_Host = ''api.example.com:8443'', url_Path = ''/iaas''\<rparr>
   \<and> URL_Hostname \<lparr>url_Scheme = ''https'', url_Host = ''api.example.com:8443'',
                    url_Path = ''/iaas''\<rparr> = ''api.example.com''
   \<and> URL_Port \<lparr>url_Scheme = ''https'', url_Host = ''api.example.com:8443'',
                url_Path = ''/iaas''\<rparr> = ''8443''
   \<and> Atoi ''8443'' = Inr 8443
   \<and> fst (NewWithEndpoint (example_env example_default) ''KEY'' ''SECRET''
            ''https://api.example.com:8443/iaas'' empty_world) =
       Inr \<lparr>AccessKeyID = ''KEY'', SecretAccessKey = ''SECRET'',
            Host = ''api.example.com'', Port = 8443, Protocol = ''https'', URI = ''/iaas'',
            ConnectionRetries = 3, ConnectionTimeout = 30, LogLevel = ''warn'', Zone = [],
            Connection = Some (Client None)\<rparr>"
proof -
  let ?u = "\<lparr>url_Scheme = ''https'', url_Host = ''api.example.com:8443'', url_Path = ''/iaas''\<rparr>"
  have parse: "url_Parse (example_env example_default) ''https://api.example.com:8443/iaas'' = Inr ?u"
    by code_simp
  have hn: "URL_Hostname ?u = ''api.example.com''" by code_simp
  have pt: "URL_Port ?u = ''8443''" by code_simp
  have form: "url_Host ?u = URL_Hostname ?u @ CHR '':'' # URL_Port ?u"
    by (simp add: hn pt)
  have nocolon: "CHR '':'' \<notin> set (URL_Hostname ?u)" by (simp add: hn)
  have atoi: "Atoi ''8443'' = Inr 8443" by code_simp
  have atoi': "Atoi (URL_Port ?u) = Inr 8443" by (simp add: pt atoi)
  show ?thesis
    using NewWithEndpoint_host_port [OF parse form nocolon atoi' example_default_decoded,
        of "''KEY''" "''SECRET''" empty_world]
    by (simp add: parse hn pt atoi)
qed

text \<open>
  On other IPv6 literals the same split makes the call fail: \<open>http://[::1]:8080/iaas\<close>
  parses, its port is \<open>8080\<close>, and the second piece of \<open>Host\<close>, the empty string,
  goes to \<open>Atoi\<close>.
\<close>

lemma NewWithEndpoint_ipv6_loopback_port:
  "url_Parse (example_env example_default) ''http://[::1]:8080/iaas'' =
     Inr \<lparr>url_Scheme = ''http'', url_Host = ''[::1]:8080'', url_Path = ''/iaas''\<rparr>
   \<and> URL_Hostname \<lparr>url_Scheme = ''http'', url_Host = ''[::1]:8080'', url_Path = ''/iaas''\<rparr>
       = ''::1''
   \<and> URL_Port \<lparr>url_Scheme = ''http'', url_Host = ''[::1]:8080'', url_Path = ''/iaas''\<rparr>
       = ''8080''
   \<and> fst (NewWithEndpoint (example_env example_default) ''KEY'' ''SECRET''
            ''http://[::1]:8080/iaas'' empty_world) = Inl (NumError [] ErrSyntax)"
  by code_simp

text \<open>
  The port has to fit \<open>int\<close> too: \<open>url.Parse\<close> accepts any run of digits as a port, and
  \<open>Atoi\<close> rejects the ones that are out of range.
\<close>

lemma NewWithEndpoint_port_out_of_range:
  "fst (NewWithEndpoint (example_env example_default) ''KEY'' ''SECRET''
          ''http://example.com:99999999999999999999/iaas'' empty_world) =
   Inl (NumError ''99999999999999999999'' ErrRange)"
  by code_simp

subsection \<open>C4: an endpoint without a port\<close>

text \<open>
  C4. For every endpoint whose host has no port, \<open>NewWithEndpoint\<close> is to fail with the
  missing-port error and to return no record. The code tests for the port with
  \<open>!strings.Contains(qcUrl.Host, ":")\<close>, which an IPv6 literal passes without a port:
  the endpoint \<open>http://[2001:470::1]/iaas\<close> has no port, and the call succeeds and
  returns a record with \<open>Host\<close> \<open>[2001\<close> and \<open>Port\<close> 470.
\<close>

theorem NewWithEndpoint_portless_ipv6_returns_record:
  "url_Parse (example_env example_default) ''http://[2001:470::1]/iaas'' =
     Inr \<lparr>url_Scheme = ''http'', url_Host = ''[2001:470::1]'', url_Path = ''/iaas''\<rparr>
   \<and> URL_Hostname \<lparr>url_Scheme = ''http'', url_Host = ''[2001:470::1]'',
                    url_Path = ''/iaas''\<rparr> = ''2001:470::1''
   \<and> URL_Port \<lparr>url_Scheme = ''http'', url_Host = ''[2001:470::1]'',
                url_Path = ''/iaas''\<rparr> = []
   \<and> fst (NewWithEndpoint (example_env example_default) ''KEY'' ''SECRET''
            ''http://[2001:470::1]/iaas'' empty_world) =
       Inr \<lparr>AccessKeyID = ''KEY'', SecretAccessKey = ''SECRET'',
            Host = ''[2001'', Port = 470, Protocol = ''http'', URI = ''/iaas'',
            ConnectionRetries = 3, ConnectionTimeout = 30, LogLevel = ''warn'', Zone = [],
            Connection = Some (Client None)\<rparr>"
  by code_simp

text \<open>
  Where the \<open>Host\<close> of the parsed URL has no colon at all, the test does its work:
  \<open>NewWithEndpoint\<close> fails with the missing-port error, returns no record and has not
  touched the world (the defaults are not even loaded).
\<close>

lemma NewWithEndpoint_no_colon:
  assumes "url_Parse e endpoint = Inr u"
    and "CHR '':'' \<notin> set (url_Host u)"
  shows "NewWithEndpoint e accessKeyID secretAccessKey endpoint w = (Inl MissingPortError, w)"
  using assms by (simp add: NewWithEndpoint_def strings_Contains_def)

text \<open>The endpoint \<open>https://api.example.com/iaas\<close> in the example environment.\<close>

lemma NewWithEndpoint_no_colon_example:
  "url_Parse (example_env example_default) ''https://api.example.com/iaas'' =
     Inr \<lparr>url_Scheme = ''https'', url_Host = ''api.example.com'', url_Path = ''/iaas''\<rparr>
   \<and> CHR '':'' \<notin> set ''api.example.com''
   \<and> NewWithEndpoint (example_env example_default) ''KEY'' ''SECRET''
        ''https://api.example.com/iaas'' empty_world =
       (Inl (Errorf ''If you use endpoint , you must pass in the port number ''), empty_world)"
proof -
  let ?u = "\<lparr>url_Scheme = ''https'', url_Host = ''api.example.com'', url_Path = ''/iaas''\<rparr>"
  have parse: "url_Parse (example_env example_default) ''https://api.example.com/iaas'' = Inr ?u"
    by code_simp
  have nocolon: "CHR '':'' \<notin> set (url_Host ?u)" by simp
  show ?thesis
    using NewWithEndpoint_no_colon [OF parse nocolon, of "''KEY''" "''SECRET''" empty_world]
    by (simp add: parse MissingPortError_def)
qed

text \<open>
  On \<open>http://[::1]/iaas\<close>, which has no port either, the test lets the endpoint through
  as well and the call fails in \<open>Atoi\<close>, with a \<open>NumError\<close> and not with the
  missing-port error.
\<close>

lemma NewWithEndpoint_ipv6_loopback_no_port:
  "url_Parse (example_env example_default) ''http://[::1]/iaas'' =
     Inr \<lparr>url_Scheme = ''http'', url_Host = ''[::1]'', url_Path = ''/iaas''\<rparr>
   \<and> URL_Port \<lparr>url_Scheme = ''http'', url_Host = ''[::1]'', url_Path = ''/iaas''\<rparr> = []
   \<and> fst (NewWithEndpoint (example_env example_default) ''KEY'' ''SECRET''
            ''http://[::1]/iaas'' empty_world) = Inl (NumError [] ErrSyntax)
   \<and> NumError [] ErrSyntax \<noteq> MissingPortError"
  by code_simp


text \<open>
  The same happens with an empty port, \<open>http://example.com:/iaas\<close>, which \<open>url.Parse\<close>
  accepts as well.
\<close>

lemma NewWithEndpoint_empty_port:
  "URL_Port \<lparr>url_Scheme = ''http'', url_Host = ''example.com:'', url_Path = ''/iaas''\<rparr> = []
   \<and> fst (NewWithEndpoint (example_env example_default) ''KEY'' ''SECRET''
            ''http://example.com:/iaas'' empty_world) = Inl (NumError [] ErrSyntax)"
  by code_simp

subsection \<open>The loaders, for every decoder\<close>

lemma LoadDefaultConfig_record:
  "fst (snd (LoadDefaultConfig e c w)) = fst (YAMLDecode e (DefaultConfigFileContent e) c)"
  by (simp add: LoadDefaultConfig_def split: prod.splits option.splits)


lemma LoadConfigFromContent_error:
  "fst (LoadConfigFromContent e content c w) =
   snd (YAMLDecode e content (fst (YAMLDecode e (DefaultConfigFileContent e) c)))"
  by (simp add: LoadConfigFromContent_def LoadDefaultConfig_def split: prod.splits option.splits)

lemma LoadConfigFromContent_record:
  "fst (snd (LoadConfigFromContent e content c w)) =
   (case YAMLDecode e content (fst (YAMLDecode e (DefaultConfigFileContent e) c)) of
      (c2, Some err) \<Rightarrow> c2
    | (c2, None) \<Rightarrow> c2\<lparr>Connection := Some (dial_client (ConnectionTimeout c2))\<rparr>)"
  by (simp add: LoadConfigFromContent_def LoadDefaultConfig_def split: prod.splits option.splits)

subsection \<open>C2: loading the same bytes twice\<close>

lemma LoadConfigFromContent_spec_record:
  assumes "YAMLDecode e = YAMLDecode_spec parse"
  shows "fst (snd (LoadConfigFromContent e content c w)) =
         (let c2 = overlay (layer parse content)
                     (overlay (layer parse (DefaultConfigFileContent e)) c)
          in if fst (LoadConfigFromContent e content c w) = None
             then c2\<lparr>Connection := Some (dial_client (ConnectionTimeout c2))\<rparr>
             else c2)"
proof -
  let ?c1 = "fst (YAMLDecode_spec parse (DefaultConfigFileContent e) c)"
  obtain c2 r where dec: "YAMLDecode_spec parse content ?c1 = (c2, r)"
    by (cases "YAMLDecode_spec parse content ?c1")
  have "c2 = overlay (layer parse content) (overlay (layer parse (DefaultConfigFileContent e)) c)"
    using arg_cong [OF dec, of fst] by (simp add: YAMLDecode_spec_record)
  then show ?thesis
    using dec
    by (simp add: LoadConfigFromContent_record LoadConfigFromContent_error assms Let_def
        split: option.splits)
qed

lemma LoadConfigFromContent_spec_error:
  assumes "YAMLDecode e = YAMLDecode_spec parse"
  shows "fst (LoadConfigFromContent e content c w) = fst (LoadConfigFromContent e content c' w')"
  using YAMLDecode_spec_error [of parse content]
  by (simp add: LoadConfigFromContent_error assms)

text \<open>
  C2. With the decoder of the specification, \<open>LoadConfigFromContent\<close> is idempotent:
  for all bytes and every starting record, a second load of the same bytes (in any
  world) leaves the record that the first load left, and returns what the first
  returned. It holds whether the bytes, or the built-in document, decode or not.
\<close>

theorem LoadConfigFromContent_idempotent:
  assumes "YAMLDecode e = YAMLDecode_spec parse"
  shows "fst (snd (LoadConfigFromContent e content
                     (fst (snd (LoadConfigFromContent e content c w))) w')) =
         fst (snd (LoadConfigFromContent e content c w))
       \<and> fst (LoadConfigFromContent e content
                (fst (snd (LoadConfigFromContent e content c w))) w') =
         fst (LoadConfigFromContent e content c w)"
proof -
  let ?c1 = "fst (snd (LoadConfigFromContent e content c w))"
  have r: "fst (LoadConfigFromContent e content ?c1 w') =
           fst (LoadConfigFromContent e content c w)"
    by (rule LoadConfigFromContent_spec_error [OF assms])
  have "fst (snd (LoadConfigFromContent e content ?c1 w')) = ?c1"
    unfolding LoadConfigFromContent_spec_record [OF assms, of content ?c1 w'] r
    unfolding LoadConfigFromContent_spec_record [OF assms, of content c w]
    by (simp add: Let_def overlay_Connection overlay_twice)
  then show ?thesis using r by simp
qed

lemma example_env_decoder: "YAMLDecode (example_env builtin) = YAMLDecode_spec flat_yaml"
  by (simp add: example_env_def)

text \<open>The bytes of the specification's example, loaded twice into the zero record.\<close>

theorem LoadConfigFromContent_idempotent_witness:
  "YAMLDecode (example_env example_default) = YAMLDecode_spec flat_yaml
   \<and> fst (snd (LoadConfigFromContent (example_env example_default) spec_content
                 Config_zero empty_world)) =
       \<lparr>AccessKeyID = ''ACCESS_KEY_ID'', SecretAccessKey = ''SECRET_ACCESS_KEY'',
        Host = ''example.com'', Port = 4000, Protocol = ''https'', URI = ''/iaas'',
        ConnectionRetries = 3, ConnectionTimeout = 30, LogLevel = ''warn'', Zone = [],
        Connection = Some (Client (Some (Transport 30000000000)))\<rparr>
   \<and> fst (snd (LoadConfigFromContent (example_env example_default) spec_content
                 (fst (snd (LoadConfigFromContent (example_env example_default) spec_content
                              Config_zero empty_world))) empty_world)) =
       \<lparr>AccessKeyID = ''ACCESS_KEY_ID'', SecretAccessKey = ''SECRET_ACCESS_KEY'',
        Host = ''example.com'', Port = 4000, Protocol = ''https'', URI = ''/iaas'',
        ConnectionRetries = 3, ConnectionTimeout = 30, LogLevel = ''warn'', Zone = [],
        Connection = Some (Client (Some (Transport 30000000000)))\<rparr>"
proof -
  have once: "fst (snd (LoadConfigFromContent (example_env example_default) spec_content
                 Config_zero empty_world)) =
       \<lparr>AccessKeyID = ''ACCESS_KEY_ID'', SecretAccessKey = ''SECRET_ACCESS_KEY'',
        Host = ''example.com'', Port = 4000, Protocol = ''https'', URI = ''/iaas'',
        ConnectionRetries = 3, ConnectionTimeout = 30, LogLevel = ''warn'', Zone = [],
        Connection = Some (Client (Some (Transport 30000000000)))\<rparr>"
    by code_simp
  show ?thesis
    using LoadConfigFromContent_idempotent [OF example_env_decoder,
        of example_default spec_content Config_zero empty_world empty_world]
    by (simp add: example_env_decoder once)
qed


subsection \<open>C6: the bytes are laid over the defaults\<close>

lemma layer_Some: "parse content = Some d \<Longrightarrow> well_typed d \<Longrightarrow> layer parse content = d"
  by (simp add: layer_def)

lemma YAMLDecode_spec_ok:
  "parse content = Some d \<Longrightarrow> well_typed d \<Longrightarrow>
   YAMLDecode_spec parse content c = (overlay d c, None)"
  by (simp add: YAMLDecode_spec_def decode_entries_overlay)


lemma str_of_skip: "k' \<noteq> k \<Longrightarrow> str_of k (d1 @ (k', v) # d2) old = str_of k (d1 @ d2) old"
  by (simp add: str_of_def map_add_def split: option.splits)

lemma int_of_skip: "k' \<noteq> k \<Longrightarrow> int_of k (d1 @ (k', v) # d2) old = int_of k (d1 @ d2) old"
  by (simp add: int_of_def map_add_def split: option.splits)

lemma overlay_unrecognized:
  assumes "k \<notin> set [''qy_access_key_id'', ''qy_secret_access_key'', ''host'', ''port'',
                      ''protocol'', ''uri'', ''connection_retries'', ''connection_timeout'',
                      ''log_level'', ''zone'']"
  shows "overlay (d1 @ (k, v) # d2) c = overlay (d1 @ d2) c"
  using assms by (simp add: overlay_def str_of_skip int_of_skip)

text \<open>
  C6. With the decoder of the specification, when the built-in document and the bytes
  are well-typed documents \<open>dd\<close> and \<open>d\<close>, \<open>LoadConfigFromContent\<close> succeeds and leaves
  \<open>overlay d (overlay dd c)\<close> with the client attached: a field whose key is in the
  bytes has the value there, otherwise the value of the built-in document when its key
  is there, otherwise its prior value; keys that are not among the ten do not count
  (\<open>overlay_unrecognized\<close>).
\<close>

theorem LoadConfigFromContent_layered:
  assumes "YAMLDecode e = YAMLDecode_spec parse"
    and "parse (DefaultConfigFileContent e) = Some dd" and "well_typed dd"
    and "parse content = Some d" and "well_typed d"
  shows "fst (LoadConfigFromContent e content c w) = None
       \<and> fst (snd (LoadConfigFromContent e content c w)) =
         (overlay d (overlay dd c))
           \<lparr>Connection :=
              Some (dial_client (ConnectionTimeout (overlay d (overlay dd c))))\<rparr>"
  using YAMLDecode_spec_ok [of parse "DefaultConfigFileContent e" dd, OF assms(2,3)]
    YAMLDecode_spec_ok [of parse content d, OF assms(4,5)]
  by (simp add: LoadConfigFromContent_error LoadConfigFromContent_record assms(1))

lemma spec_default_parsed:
  "flat_yaml spec_default =
   Some [(''host'', ''qingcloud.com''), (''port'', ''443''), (''protocol'', ''https''),
         (''connection_timeout'', ''15'')]"
  by code_simp

lemma spec_content_parsed:
  "flat_yaml spec_content =
   Some [(''host'', ''example.com''), (''port'', ''4000''), (''protocol'', ''https'')]"
  by code_simp

text \<open>
  The example of the specification: \<open>host: example.com\<close>, \<open>port: 4000\<close>,
  \<open>protocol: https\<close> over the defaults \<open>qingcloud.com\<close>, 443, \<open>https\<close> and timeout 15.
\<close>

theorem LoadConfigFromContent_layered_witness:
  "YAMLDecode (example_env spec_default) = YAMLDecode_spec flat_yaml
   \<and> flat_yaml (DefaultConfigFileContent (example_env spec_default)) =
       Some [(''host'', ''qingcloud.com''), (''port'', ''443''), (''protocol'', ''https''),
             (''connection_timeout'', ''15'')]
   \<and> well_typed [(''host'', ''qingcloud.com''), (''port'', ''443''), (''protocol'', ''https''),
                  (''connection_timeout'', ''15'')]
   \<and> flat_yaml spec_content =
       Some [(''host'', ''example.com''), (''port'', ''4000''), (''protocol'', ''https'')]
   \<and> well_typed [(''host'', ''example.com''), (''port'', ''4000''), (''protocol'', ''https'')]
   \<and> fst (LoadConfigFromContent (example_env spec_default) spec_content Config_zero
            empty_world) = None
   \<and> fst (snd (LoadConfigFromContent (example_env spec_default) spec_content Config_zero
                 empty_world)) =
       \<lparr>AccessKeyID = [], SecretAccessKey = [],
        Host = ''example.com'', Port = 4000, Protocol = ''https'', URI = [],
        ConnectionRetries = 0, ConnectionTimeout = 15, LogLevel = [], Zone = [],
        Connection = Some (Client (Some (Transport 15000000000)))\<rparr>"
proof -
  let ?dd = "[(''host'', ''qingcloud.com''), (''port'', ''443''), (''protocol'', ''https''),
              (''connection_timeout'', ''15'')]"
  let ?d = "[(''host'', ''example.com''), (''port'', ''4000''), (''protocol'', ''https'')]"
  have p0: "flat_yaml (DefaultConfigFileContent (example_env spec_default)) = Some ?dd"
    by (simp add: example_env_def spec_default_parsed)
  have t0: "well_typed ?dd" by code_simp
  have t1: "well_typed ?d" by code_simp
  have val: "(overlay ?d (overlay ?dd Config_zero))
           \<lparr>Connection :=
              Some (dial_client (ConnectionTimeout (overlay ?d (overlay ?dd Config_zero))))\<rparr> =
       \<lparr>AccessKeyID = [], SecretAccessKey = [],
        Host = ''example.com'', Port = 4000, Protocol = ''https'', URI = [],
        ConnectionRetries = 0, ConnectionTimeout = 15, LogLevel = [], Zone = [],
        Connection = Some (Client (Some (Transport 15000000000)))\<rparr>"
    by code_simp
  show ?thesis
    using LoadConfigFromContent_layered [OF example_env_decoder p0 t0 spec_content_parsed t1,
        of Config_zero empty_world]
    by (simp only: val example_env_decoder p0 t0 t1 spec_content_parsed simp_thms)
qed

subsection \<open>C5: what a failed load leaves behind\<close>




lemma layer_example_default:
  "layer flat_yaml example_default =
   [(''qy_access_key_id'', ''ACCESS_KEY_ID''), (''qy_secret_access_key'', ''SECRET_ACCESS_KEY''),
    (''host'', ''api.qingcloud.com''), (''port'', ''443''), (''protocol'', ''https''),
    (''uri'', ''/iaas''), (''connection_retries'', ''3''), (''connection_timeout'', ''30''),
    (''log_level'', ''warn'')]"
  by code_simp



subsection \<open>C9: the error of re-applying the defaults is dropped\<close>

text \<open>
  C9. For every decoder: when decoding the built-in document into the record fails
  (leaving \<open>c1\<close>) and decoding the bytes into \<open>c1\<close> succeeds (leaving \<open>c2\<close>),
  \<open>LoadConfigFromContent\<close> returns no error and leaves \<open>c2\<close> with the client
  attached.
\<close>

theorem LoadConfigFromContent_ignores_default_error:
  assumes "YAMLDecode e (DefaultConfigFileContent e) c = (c1, Some err0)"
    and "YAMLDecode e content c1 = (c2, None)"
  shows "fst (LoadConfigFromContent e content c w) = None
       \<and> fst (snd (LoadConfigFromContent e content c w)) =
           c2\<lparr>Connection := Some (dial_client (ConnectionTimeout c2))\<rparr>"
  using assms by (simp add: LoadConfigFromContent_def LoadDefaultConfig_def)

text \<open>A built-in document that is no document, and the bytes of the example.\<close>

theorem LoadConfigFromContent_ignores_default_error_witness:
  "YAMLDecode (example_env ''no document'')
     (DefaultConfigFileContent (example_env ''no document'')) Config_zero =
     (Config_zero, Some (DecodeError ''yaml: not a structured document''))
   \<and> YAMLDecode (example_env ''no document'') spec_content Config_zero =
     (Config_zero\<lparr>Host := ''example.com'', Port := 4000, Protocol := ''https''\<rparr>, None)
   \<and> fst (LoadConfigFromContent (example_env ''no document'') spec_content Config_zero
            empty_world) = None
   \<and> fst (snd (LoadConfigFromContent (example_env ''no document'') spec_content Config_zero
                 empty_world)) =
       \<lparr>AccessKeyID = [], SecretAccessKey = [],
        Host = ''example.com'', Port = 4000, Protocol = ''https'', URI = [],
        ConnectionRetries = 0, ConnectionTimeout = 0, LogLevel = [], Zone = [],
        Connection = Some (Client (Some (Transport 0)))\<rparr>"
proof -
  let ?bad = "example_env ''no document''"
  have h1: "YAMLDecode ?bad (DefaultConfigFileContent ?bad) Config_zero =
     (Config_zero, Some (DecodeError ''yaml: not a structured document''))"
    by code_simp
  have h2: "YAMLDecode ?bad spec_content Config_zero =
     (Config_zero\<lparr>Host := ''example.com'', Port := 4000, Protocol := ''https''\<rparr>, None)"
    by code_simp
  have v: "(Config_zero\<lparr>Host := ''example.com'', Port := 4000, Protocol := ''https''\<rparr>)
             \<lparr>Connection := Some (dial_client (ConnectionTimeout
                (Config_zero\<lparr>Host := ''example.com'', Port := 4000,
                   Protocol := ''https''\<rparr>)))\<rparr> =
       \<lparr>AccessKeyID = [], SecretAccessKey = [],
        Host = ''example.com'', Port = 4000, Protocol = ''https'', URI = [],
        ConnectionRetries = 0, ConnectionTimeout = 0, LogLevel = [], Zone = [],
        Connection = Some (Client (Some (Transport 0)))\<rparr>"
    by code_simp
  show ?thesis
    using LoadConfigFromContent_ignores_default_error [OF h1 h2, of empty_world]
    by (simp only: h1 h2 v simp_thms)
qed

subsection \<open>C8: \<open>New\<close>\<close>

text \<open>
  C8. For every decoder and every pair of strings: \<open>New\<close> decodes the built-in document
  into the zero record; when that succeeds it returns the decoded record with the two
  credentials replaced by the arguments and the client \<open>&http.Client{}\<close> (no transport
  of its own, so no dial timeout), every other field as decoded; it fails exactly when
  the decode fails, with the error of the decode.
\<close>

theorem New_credentials:
  "New e accessKeyID secretAccessKey w =
     (case YAMLDecode e (DefaultConfigFileContent e) Config_zero of
        (d, None) \<Rightarrow>
          (Inr (d\<lparr>AccessKeyID := accessKeyID, SecretAccessKey := secretAccessKey,
                  Connection := Some (Client None)\<rparr>),
           logger_SetLevel (LogLevel d) w)
      | (d, Some err) \<Rightarrow>
          (Inl err, logger_Error (''Config parse error: '' @ Error err) w))"
  by (simp add: New_def NewDefault_def LoadDefaultConfig_def split: prod.splits option.splits)

text \<open>Both outcomes in the example environment.\<close>

theorem New_credentials_witness:
  "fst (New (example_env example_default) ''KEY'' ''SECRET'' empty_world) =
     Inr \<lparr>AccessKeyID = ''KEY'', SecretAccessKey = ''SECRET'',
          Host = ''api.qingcloud.com'', Port = 443, Protocol = ''https'', URI = ''/iaas'',
          ConnectionRetries = 3, ConnectionTimeout = 30, LogLevel = ''warn'', Zone = [],
          Connection = Some (Client None)\<rparr>
   \<and> fst (New (example_env ''no document'') ''KEY'' ''SECRET'' empty_world) =
     Inl (DecodeError ''yaml: not a structured document'')"
proof -
  have bad: "YAMLDecode (example_env ''no document'')
     (DefaultConfigFileContent (example_env ''no document'')) Config_zero =
     (Config_zero, Some (DecodeError ''yaml: not a structured document''))"
    by code_simp
  show ?thesis
    using New_credentials [of "example_env example_default" "''KEY''" "''SECRET''" empty_world]
      New_credentials [of "example_env ''no document''" "''KEY''" "''SECRET''" empty_world]
    by (simp add: example_default_decoded bad)
qed


subsection \<open>C7: the dial timeout of \<open>NewDefault\<close>\<close>

lemma sint_word64_of_int:
  assumes "- (2 ^ 63) \<le> k" and "k < 2 ^ 63"
  shows "sint (word_of_int k :: 64 word) = k"
proof -
  have "sint (word_of_int k :: 64 word) = signed_take_bit (LENGTH(64) - 1) k"
    by (rule sint_sbintrunc')
  also have "LENGTH(64) - 1 = (63::nat)" by simp
  also have "signed_take_bit 63 k = k"
    using assms by (rule signed_take_bit_int_eq_self)
  finally show ?thesis .
qed

lemma seconds_to_Duration:
  assumes "- 9223372036 \<le> t" and "t \<le> 9223372036"
  shows "sint (word_of_int t * time_Second :: Duration) = t * 1000000000"
proof -
  have eq: "word_of_int t * time_Second = (word_of_int (t * 1000000000) :: Duration)"
    unfolding time_Second_def by simp
  have "- (2 ^ 63) \<le> t * 1000000000" and "t * 1000000000 < 2 ^ 63"
    using assms by simp_all
  then have "sint (word_of_int (t * 1000000000) :: 64 word) = t * 1000000000"
    by (rule sint_word64_of_int)
  then show ?thesis unfolding eq .
qed

lemma NewDefault_success:
  assumes "fst (NewDefault e w) = Inr c"
  shows "\<exists>d. YAMLDecode e (DefaultConfigFileContent e) Config_zero = (d, None)
             \<and> c = d\<lparr>Connection := Some (dial_client (ConnectionTimeout d))\<rparr>"
  using assms
  by (auto simp: NewDefault_def LoadDefaultConfig_def split: prod.splits option.splits)

text \<open>
  C7, as amended. After a successful \<open>NewDefault\<close> the record's \<open>ConnectionTimeout\<close> is
  the one decoded from the built-in document, and the client's dialer passes
  \<open>time.Duration(ConnectionTimeout) * time.Second\<close> to \<open>net.DialTimeout\<close>: with
  \<open>connection_timeout = 30\<close> that is exactly 30 seconds, and in general it is
  \<open>ConnectionTimeout\<close> seconds whenever that many nanoseconds fit the signed 64 bits of a
  \<open>Duration\<close>, that is for \<open>-9223372036 \<le> ConnectionTimeout \<le> 9223372036\<close>.
\<close>

theorem NewDefault_dial_timeout:
  assumes "fst (NewDefault e w) = Inr c"
  shows "(\<exists>d. YAMLDecode e (DefaultConfigFileContent e) Config_zero = (d, None)
              \<and> ConnectionTimeout c = ConnectionTimeout d)
       \<and> (ConnectionTimeout c = 30 \<longrightarrow> dial_timeout_ns c = Some (30 * 1000000000))
       \<and> (- 9223372036 \<le> ConnectionTimeout c \<and> ConnectionTimeout c \<le> 9223372036 \<longrightarrow>
            dial_timeout_ns c = Some (ConnectionTimeout c * 1000000000))"
proof -
  obtain d where d: "YAMLDecode e (DefaultConfigFileContent e) Config_zero = (d, None)"
    and c: "c = d\<lparr>Connection := Some (dial_client (ConnectionTimeout d))\<rparr>"
    using NewDefault_success [OF assms] by blast
  have t: "dial_timeout_ns c = Some (sint (word_of_int (ConnectionTimeout c) * time_Second :: Duration))"
    by (simp add: c dial_timeout_ns_def dial_client_def)
  have general: "- 9223372036 \<le> ConnectionTimeout c \<and> ConnectionTimeout c \<le> 9223372036 \<longrightarrow>
            dial_timeout_ns c = Some (ConnectionTimeout c * 1000000000)"
    using seconds_to_Duration [of "ConnectionTimeout c"] t by simp
  then have "ConnectionTimeout c = 30 \<longrightarrow> dial_timeout_ns c = Some (30 * 1000000000)"
    by auto
  moreover have "\<exists>d. YAMLDecode e (DefaultConfigFileContent e) Config_zero = (d, None)
              \<and> ConnectionTimeout c = ConnectionTimeout d"
    using d c by auto
  ultimately show ?thesis using general by blast
qed

text \<open>The example environment, whose built-in document has \<open>connection_timeout: 30\<close>.\<close>

theorem NewDefault_dial_timeout_witness:
  "fst (NewDefault (example_env example_default) empty_world) =
     Inr \<lparr>AccessKeyID = ''ACCESS_KEY_ID'', SecretAccessKey = ''SECRET_ACCESS_KEY'',
          Host = ''api.qingcloud.com'', Port = 443, Protocol = ''https'', URI = ''/iaas'',
          ConnectionRetries = 3, ConnectionTimeout = 30, LogLevel = ''warn'', Zone = [],
          Connection = Some (Client (Some (Transport 30000000000)))\<rparr>
   \<and> dial_timeout_ns
        \<lparr>AccessKeyID = ''ACCESS_KEY_ID'', SecretAccessKey = ''SECRET_ACCESS_KEY'',
          Host = ''api.qingcloud.com'', Port = 443, Protocol = ''https'', URI = ''/iaas'',
          ConnectionRetries = 3, ConnectionTimeout = 30, LogLevel = ''warn'', Zone = [],
          Connection = Some (Client (Some (Transport 30000000000)))\<rparr> =
       Some (30 * 1000000000)"
proof -
  let ?c = "\<lparr>AccessKeyID = ''ACCESS_KEY_ID'', SecretAccessKey = ''SECRET_ACCESS_KEY'',
          Host = ''api.qingcloud.com'', Port = 443, Protocol = ''https'', URI = ''/iaas'',
          ConnectionRetries = 3, ConnectionTimeout = 30, LogLevel = ''warn'', Zone = [],
          Connection = Some (Client (Some (Transport 30000000000)))\<rparr>"
  have ok: "fst (NewDefault (example_env example_default) empty_world) = Inr ?c"
    by code_simp
  show ?thesis
    using NewDefault_dial_timeout [OF ok] ok by simp
qed

text \<open>
  The general statement of the claim (the dial timeout equals the decoded field, in
  seconds) fails where the multiplication wraps: with \<open>connection_timeout: 9223372037\<close>
  the \<open>Duration\<close> is negative.
\<close>

theorem NewDefault_dial_timeout_wraps_counterexample:
  "fst (NewDefault (example_env ''connection_timeout: 9223372037'') empty_world) =
     Inr \<lparr>AccessKeyID = [], SecretAccessKey = [], Host = [], Port = 0, Protocol = [],
          URI = [], ConnectionRetries = 0, ConnectionTimeout = 9223372037, LogLevel = [],
          Zone = [], Connection = Some (Client (Some (Transport 9223372037000000000)))\<rparr>
   \<and> dial_timeout_ns
        \<lparr>AccessKeyID = [], SecretAccessKey = [], Host = [], Port = 0, Protocol = [],
          URI = [], ConnectionRetries = 0, ConnectionTimeout = 9223372037, LogLevel = [],
          Zone = [], Connection = Some (Client (Some (Transport 9223372037000000000)))\<rparr> =
       Some (- 9223372036709551616)
   \<and> - 9223372036709551616 \<noteq> (9223372037 * 1000000000 :: int)"
  by code_simp

subsection \<open>C3: the client after each operation\<close>

lemma LoadConfigFromContent_client:
  "fst (LoadConfigFromContent e content c w) = None \<Longrightarrow>
   Connection (fst (snd (LoadConfigFromContent e content c w))) =
   Some (dial_client (ConnectionTimeout (fst (snd (LoadConfigFromContent e content c w)))))"
  by (auto simp: LoadConfigFromContent_def split: prod.splits option.splits)

lemma LoadConfigFromFilepath_client:
  "fst (LoadConfigFromFilepath e filepath c w) = None \<Longrightarrow>
   Connection (fst (snd (LoadConfigFromFilepath e filepath c w))) =
   Some (dial_client (ConnectionTimeout (fst (snd (LoadConfigFromFilepath e filepath c w)))))"
proof -
  assume ok: "fst (LoadConfigFromFilepath e filepath c w) = None"
  define p where
    "p = (if take 2 filepath = ''~/'' then getHome e @ ''/'' @ drop 2 filepath else filepath)"
  show ?thesis
  proof (cases "ioutil_ReadFile w p")
    case (Inl err)
    then have "fst (LoadConfigFromFilepath e filepath c w) = Some err"
      by (simp add: LoadConfigFromFilepath_def p_def [symmetric])
    then show ?thesis using ok by simp
  next
    case (Inr content)
    then have eq: "LoadConfigFromFilepath e filepath c w = LoadConfigFromContent e content c w"
      by (simp add: LoadConfigFromFilepath_def p_def [symmetric])
    show ?thesis
      using ok LoadConfigFromContent_client [of e content c w] unfolding eq by simp
  qed
qed

lemma LoadUserConfig_client:
  "fst (LoadUserConfig e c w) = None \<Longrightarrow>
   Connection (fst (snd (LoadUserConfig e c w))) =
   Some (dial_client (ConnectionTimeout (fst (snd (LoadUserConfig e c w)))))"
  using LoadConfigFromFilepath_client by (simp add: LoadUserConfig_def Let_def)

lemma New_client: "fst (New e a s w) = Inr c \<Longrightarrow> Connection c = Some (Client None)"
  by (auto simp: New_def split: prod.splits sum.splits)

lemma NewWithEndpoint_client:
  "fst (NewWithEndpoint e a s endpoint w) = Inr c \<Longrightarrow> Connection c = Some (Client None)"
  by (auto simp: NewWithEndpoint_def split: prod.splits sum.splits list.splits if_splits)

lemma NewDefault_client:
  "fst (NewDefault e w) = Inr c \<Longrightarrow> Connection c = Some (dial_client (ConnectionTimeout c))"
  using NewDefault_success [of e w c] by auto

lemma LoadDefaultConfig_spec_client:
  "YAMLDecode e = YAMLDecode_spec parse \<Longrightarrow>
   Connection (fst (snd (LoadDefaultConfig e c w))) = Connection c"
  by (simp add: LoadDefaultConfig_record YAMLDecode_spec_record overlay_def)

text \<open>
  C3, as amended. After a successful \<open>New\<close> or \<open>NewWithEndpoint\<close> the record has the
  client \<open>&http.Client{}\<close>, without a dial timeout; after a successful \<open>NewDefault\<close>,
  \<open>LoadConfigFromContent\<close>, \<open>LoadConfigFromFilepath\<close> or \<open>LoadUserConfig\<close> it has a
  client whose dialer is built from the \<open>ConnectionTimeout\<close> the record now has.
  \<open>LoadDefaultConfig\<close> is not among them: it neither attaches nor rebuilds a client
  (with the decoder of the specification the client is what it was before the call).
\<close>

theorem client_after_success:
  "(fst (New e accessKeyID secretAccessKey w) = Inr c \<longrightarrow> Connection c = Some (Client None))
   \<and> (fst (NewWithEndpoint e accessKeyID secretAccessKey endpoint w) = Inr c \<longrightarrow>
        Connection c = Some (Client None))
   \<and> (fst (NewDefault e w) = Inr c \<longrightarrow>
        Connection c = Some (dial_client (ConnectionTimeout c)))
   \<and> (fst (LoadConfigFromContent e content c0 w) = None \<longrightarrow>
        Connection (fst (snd (LoadConfigFromContent e content c0 w))) =
        Some (dial_client
                (ConnectionTimeout (fst (snd (LoadConfigFromContent e content c0 w))))))
   \<and> (fst (LoadConfigFromFilepath e filepath c0 w) = None \<longrightarrow>
        Connection (fst (snd (LoadConfigFromFilepath e filepath c0 w))) =
        Some (dial_client
                (ConnectionTimeout (fst (snd (LoadConfigFromFilepath e filepath c0 w))))))
   \<and> (fst (LoadUserConfig e c0 w) = None \<longrightarrow>
        Connection (fst (snd (LoadUserConfig e c0 w))) =
        Some (dial_client (ConnectionTimeout (fst (snd (LoadUserConfig e c0 w))))))
   \<and> (YAMLDecode e = YAMLDecode_spec parse \<longrightarrow>
        Connection (fst (snd (LoadDefaultConfig e c0 w))) = Connection c0)"
  using New_client [of e accessKeyID secretAccessKey w c]
    NewWithEndpoint_client [of e accessKeyID secretAccessKey endpoint w c]
    NewDefault_client [of e w c]
    LoadConfigFromContent_client [of e content c0 w]
    LoadConfigFromFilepath_client [of e filepath c0 w]
    LoadUserConfig_client [of e c0 w]
    LoadDefaultConfig_spec_client [of e parse c0 w]
  by blast


text \<open>
  Every operation in the example environment; the file loaded has
  \<open>connection_timeout: 5\<close>.
\<close>

theorem client_after_success_witness:
  "fst (New (example_env example_default) ''KEY'' ''SECRET'' empty_world) =
     Inr \<lparr>AccessKeyID = ''KEY'', SecretAccessKey = ''SECRET'',
          Host = ''api.qingcloud.com'', Port = 443, Protocol = ''https'', URI = ''/iaas'',
          ConnectionRetries = 3, ConnectionTimeout = 30, LogLevel = ''warn'', Zone = [],
          Connection = Some (Client None)\<rparr>
   \<and> fst (NewWithEndpoint (example_env example_default) ''KEY'' ''SECRET''
            ''https://api.example.com:8443/iaas'' empty_world) =
     Inr \<lparr>AccessKeyID = ''KEY'', SecretAccessKey = ''SECRET'',
          Host = ''api.example.com'', Port = 8443, Protocol = ''https'', URI = ''/iaas'',
          ConnectionRetries = 3, ConnectionTimeout = 30, LogLevel = ''warn'', Zone = [],
          Connection = Some (Client None)\<rparr>
   \<and> fst (NewDefault (example_env example_default) empty_world) =
     Inr \<lparr>AccessKeyID = ''ACCESS_KEY_ID'', SecretAccessKey = ''SECRET_ACCESS_KEY'',
          Host = ''api.qingcloud.com'', Port = 443, Protocol = ''https'', URI = ''/iaas'',
          ConnectionRetries = 3, ConnectionTimeout = 30, LogLevel = ''warn'', Zone = [],
          Connection = Some (dial_client 30)\<rparr>
   \<and> fst (LoadConfigFromContent (example_env example_default) spec_content Config_zero
            empty_world) = None
   \<and> Connection (fst (snd (LoadConfigFromContent (example_env example_default) spec_content
                             Config_zero empty_world))) = Some (dial_client 30)
   \<and> fst (LoadConfigFromFilepath (example_env example_default) ''~/my.yaml'' Config_zero
            (empty_world\<lparr>files := [''/home/user/my.yaml'' \<mapsto> ''connection_timeout: 5'']\<rparr>)) =
       None
   \<and> Connection (fst (snd (LoadConfigFromFilepath (example_env example_default) ''~/my.yaml''
            Config_zero
            (empty_world\<lparr>files := [''/home/user/my.yaml'' \<mapsto> ''connection_timeout: 5'']\<rparr>)))) =
       Some (dial_client 5)
   \<and> fst (LoadUserConfig (example_env example_default) Config_zero empty_world) = None
   \<and> Connection (fst (snd (LoadUserConfig (example_env example_default) Config_zero
                             empty_world))) = Some (dial_client 30)
   \<and> YAMLDecode (example_env example_default) = YAMLDecode_spec flat_yaml
   \<and> Connection (fst (snd (LoadDefaultConfig (example_env example_default)
                             (Config_zero\<lparr>Connection := Some (dial_client 5)\<rparr>)
                             empty_world))) = Some (dial_client 5)"
proof -
  let ?env = "example_env example_default"
  let ?w = "empty_world\<lparr>files := [''/home/user/my.yaml'' \<mapsto> ''connection_timeout: 5'']\<rparr>"
  let ?c5 = "Config_zero\<lparr>Connection := Some (dial_client 5)\<rparr>"
  have a: "fst (New ?env ''KEY'' ''SECRET'' empty_world) =
     Inr \<lparr>AccessKeyID = ''KEY'', SecretAccessKey = ''SECRET'',
          Host = ''api.qingcloud.com'', Port = 443, Protocol = ''https'', URI = ''/iaas'',
          ConnectionRetries = 3, ConnectionTimeout = 30, LogLevel = ''warn'', Zone = [],
          Connection = Some (Client None)\<rparr>"
    by code_simp
  have b: "fst (NewWithEndpoint ?env ''KEY'' ''SECRET''
            ''https://api.example.com:8443/iaas'' empty_world) =
     Inr \<lparr>AccessKeyID = ''KEY'', SecretAccessKey = ''SECRET'',
          Host = ''api.example.com'', Port = 8443, Protocol = ''https'', URI = ''/iaas'',
          ConnectionRetries = 3, ConnectionTimeout = 30, LogLevel = ''warn'', Zone = [],
          Connection = Some (Client None)\<rparr>"
    by code_simp
  have c: "fst (NewDefault ?env empty_world) =
     Inr \<lparr>AccessKeyID = ''ACCESS_KEY_ID'', SecretAccessKey = ''SECRET_ACCESS_KEY'',
          Host = ''api.qingcloud.com'', Port = 443, Protocol = ''https'', URI = ''/iaas'',
          ConnectionRetries = 3, ConnectionTimeout = 30, LogLevel = ''warn'', Zone = [],
          Connection = Some (dial_client 30)\<rparr>"
    by code_simp
  have d: "fst (LoadConfigFromContent ?env spec_content Config_zero empty_world) = None"
    by code_simp
  have d': "ConnectionTimeout (fst (snd (LoadConfigFromContent ?env spec_content Config_zero
              empty_world))) = 30"
    by code_simp
  have f: "fst (LoadConfigFromFilepath ?env ''~/my.yaml'' Config_zero ?w) = None"
    by code_simp
  have f': "ConnectionTimeout (fst (snd (LoadConfigFromFilepath ?env ''~/my.yaml'' Config_zero
              ?w))) = 5"
    by code_simp
  have u: "fst (LoadUserConfig ?env Config_zero empty_world) = None"
    by code_simp
  have u': "ConnectionTimeout (fst (snd (LoadUserConfig ?env Config_zero empty_world))) = 30"
    by code_simp
  have g: "Connection ?c5 = Some (dial_client 5)" by simp
  note inst = client_after_success [where e = ?env and w = empty_world and parse = flat_yaml]
  note instw = client_after_success [where e = ?env and w = ?w and parse = flat_yaml]
  have 1: "Connection (fst (snd (LoadConfigFromContent ?env spec_content Config_zero
              empty_world))) = Some (dial_client 30)"
    using inst [where content = spec_content and ?c0.0 = Config_zero] d d' by simp
  have 2: "Connection (fst (snd (LoadConfigFromFilepath ?env ''~/my.yaml'' Config_zero ?w))) =
           Some (dial_client 5)"
    using instw [where filepath = "''~/my.yaml''" and ?c0.0 = Config_zero] f f' by simp
  have 3: "Connection (fst (snd (LoadUserConfig ?env Config_zero empty_world))) =
           Some (dial_client 30)"
    using inst [where ?c0.0 = Config_zero] u u' by simp
  have 4: "Connection (fst (snd (LoadDefaultConfig ?env ?c5 empty_world))) =
           Some (dial_client 5)"
    using inst [where ?c0.0 = ?c5] example_env_decoder [of example_default] g by simp
  show ?thesis
    using a b c d f u 1 2 3 4 example_env_decoder [of example_default]
    by (simp only: simp_thms)
qed

text \<open>
  The claim as the specification states it fails three times over: a successful
  \<open>LoadDefaultConfig\<close> on the zero record leaves no client at all; on a record with
  timeout 5 and a 5-second dialer it sets the timeout to 30 and leaves the 5-second
  dialer; and \<open>New\<close> sets the timeout to 30 and attaches a client without any dial
  timeout.
\<close>

theorem LoadDefaultConfig_no_client_counterexample:
  "fst (LoadDefaultConfig (example_env example_default) Config_zero empty_world) = None
   \<and> Connection (fst (snd (LoadDefaultConfig (example_env example_default) Config_zero
                             empty_world))) = None
   \<and> fst (LoadDefaultConfig (example_env example_default)
            (Config_zero\<lparr>ConnectionTimeout := 5, Connection := Some (dial_client 5)\<rparr>)
            empty_world) = None
   \<and> ConnectionTimeout (fst (snd (LoadDefaultConfig (example_env example_default)
            (Config_zero\<lparr>ConnectionTimeout := 5, Connection := Some (dial_client 5)\<rparr>)
            empty_world))) = 30
   \<and> dial_timeout_ns (fst (snd (LoadDefaultConfig (example_env example_default)
            (Config_zero\<lparr>ConnectionTimeout := 5, Connection := Some (dial_client 5)\<rparr>)
            empty_world))) = Some (5 * 1000000000)
   \<and> fst (New (example_env example_default) ''KEY'' ''SECRET'' empty_world) =
       Inr \<lparr>AccessKeyID = ''KEY'', SecretAccessKey = ''SECRET'',
            Host = ''api.qingcloud.com'', Port = 443, Protocol = ''https'', URI = ''/iaas'',
            ConnectionRetries = 3, ConnectionTimeout = 30, LogLevel = ''warn'', Zone = [],
            Connection = Some (Client None)\<rparr>
   \<and> dial_timeout_ns
         \<lparr>AccessKeyID = ''KEY'', SecretAccessKey = ''SECRET'',
            Host = ''api.qingcloud.com'', Port = 443, Protocol = ''https'', URI = ''/iaas'',
            ConnectionRetries = 3, ConnectionTimeout = 30, LogLevel = ''warn'', Zone = [],
            Connection = Some (Client None)\<rparr> = None"
  by code_simp

subsection \<open>C10: the outcome of installing the user's file is dropped\<close>

lemma LoadConfigFromContent_env:
  "LoadConfigFromContent (e\<lparr>InstallDefaultUserConfig := f\<rparr>) content c w =
   LoadConfigFromContent e content c w"
  by (simp add: LoadConfigFromContent_def LoadDefaultConfig_def)

lemma LoadConfigFromFilepath_env:
  "LoadConfigFromFilepath (e\<lparr>InstallDefaultUserConfig := f\<rparr>) filepath c w =
   LoadConfigFromFilepath e filepath c w"
  by (simp add: LoadConfigFromFilepath_def LoadConfigFromContent_env Let_def
      cong: sum.case_cong)

lemma LoadConfigFromFilepath_error:
  "fst (LoadConfigFromFilepath e filepath c w) =
     (case ioutil_ReadFile w (expanded_path e filepath) of
        Inl err \<Rightarrow> Some err
      | Inr content \<Rightarrow>
          snd (YAMLDecode e content (fst (YAMLDecode e (DefaultConfigFileContent e) c))))"
proof (cases "ioutil_ReadFile w (expanded_path e filepath)")
  case (Inl err)
  then show ?thesis
    by (simp add: LoadConfigFromFilepath_def expanded_path_def [symmetric])
next
  case (Inr content)
  then have "LoadConfigFromFilepath e filepath c w = LoadConfigFromContent e content c w"
    by (simp add: LoadConfigFromFilepath_def expanded_path_def [symmetric])
  then show ?thesis
    using Inr by (simp add: LoadConfigFromContent_error)
qed

lemma LoadUserConfig_world:
  "LoadUserConfig e c w =
   LoadConfigFromFilepath e (GetUserConfigFilePath e) c (world_after_install e w)"
  by (simp add: LoadUserConfig_def world_after_install_def)

text \<open>
  C10, as amended. \<open>LoadUserConfig\<close> does not look at what
  \<open>InstallDefaultUserConfig\<close> returns: replacing the returned outcome by any other,
  with the same effect on the world, gives the same result. What \<open>LoadUserConfig\<close>
  returns is decided by the load that follows, in the world that the installer has left
  (the given world when the file was there): the error of reading the user's file (the
  path with a leading \<open>~/\<close> expanded) when the read fails, and otherwise whatever
  decoding the bytes read returns, an error or none.
\<close>

theorem LoadUserConfig_install_outcome:
  "LoadUserConfig
     (e\<lparr>InstallDefaultUserConfig := \<lambda>w. (fst (InstallDefaultUserConfig e w), outcome)\<rparr>) c w =
   LoadUserConfig e c w
   \<and> fst (LoadUserConfig e c w) =
       (case ioutil_ReadFile (world_after_install e w)
               (expanded_path e (GetUserConfigFilePath e)) of
          Inl err \<Rightarrow> Some err
        | Inr content \<Rightarrow>
            snd (YAMLDecode e content (fst (YAMLDecode e (DefaultConfigFileContent e) c))))"
proof -
  have 1: "LoadUserConfig
     (e\<lparr>InstallDefaultUserConfig := \<lambda>w. (fst (InstallDefaultUserConfig e w), outcome)\<rparr>) c w =
   LoadUserConfig e c w"
    by (simp add: LoadUserConfig_def LoadConfigFromFilepath_env Let_def
        cong: option.case_cong)
  have 2: "fst (LoadUserConfig e c w) =
       (case ioutil_ReadFile (world_after_install e w)
               (expanded_path e (GetUserConfigFilePath e)) of
          Inl err \<Rightarrow> Some err
        | Inr content \<Rightarrow>
            snd (YAMLDecode e content (fst (YAMLDecode e (DefaultConfigFileContent e) c))))"
    unfolding LoadUserConfig_world by (rule LoadConfigFromFilepath_error)
  show ?thesis using 1 2 by (rule conjI)
qed

text \<open>
  No file, and an installer that fails without writing: the read fails in the world it
  leaves, and the call fails with the error of the read, not with the installer's. With
  the installer that copies the built-in document the read and the decode succeed, and
  so does the call.
\<close>

theorem LoadUserConfig_install_outcome_witness:
  "snd (InstallDefaultUserConfig
          (example_env example_default\<lparr>InstallDefaultUserConfig := install_nothing\<rparr>)
          empty_world) = Some (InstallError ''mkdir: permission denied'')
   \<and> ioutil_ReadFile
        (world_after_install
           (example_env example_default\<lparr>InstallDefaultUserConfig := install_nothing\<rparr>)
           empty_world)
        (expanded_path
           (example_env example_default\<lparr>InstallDefaultUserConfig := install_nothing\<rparr>)
           (GetUserConfigFilePath
              (example_env example_default\<lparr>InstallDefaultUserConfig := install_nothing\<rparr>))) =
       Inl (FileIOError
              ''open /home/user/.qingcloud/config.yaml: no such file or directory'')
   \<and> fst (LoadUserConfig
            (example_env example_default\<lparr>InstallDefaultUserConfig := install_nothing\<rparr>)
            Config_zero empty_world) =
       Some (FileIOError
               ''open /home/user/.qingcloud/config.yaml: no such file or directory'')
   \<and> ioutil_ReadFile
        (world_after_install (example_env example_default) empty_world)
        (expanded_path (example_env example_default)
           (GetUserConfigFilePath (example_env example_default))) = Inr example_default
   \<and> fst (LoadUserConfig (example_env example_default) Config_zero empty_world) = None"
proof -
  let ?env = "example_env example_default\<lparr>InstallDefaultUserConfig := install_nothing\<rparr>"
  let ?ok = "example_env example_default"
  have a: "snd (InstallDefaultUserConfig ?env empty_world) =
           Some (InstallError ''mkdir: permission denied'')"
    by code_simp
  have b: "ioutil_ReadFile (world_after_install ?env empty_world)
             (expanded_path ?env (GetUserConfigFilePath ?env)) =
       Inl (FileIOError
              ''open /home/user/.qingcloud/config.yaml: no such file or directory'')"
    by code_simp
  have c: "ioutil_ReadFile (world_after_install ?ok empty_world)
             (expanded_path ?ok (GetUserConfigFilePath ?ok)) = Inr example_default"
    by code_simp
  have d: "snd (YAMLDecode ?ok example_default
                  (fst (YAMLDecode ?ok (DefaultConfigFileContent ?ok) Config_zero))) = None"
    by code_simp
  have 1: "fst (LoadUserConfig ?env Config_zero empty_world) =
       Some (FileIOError
               ''open /home/user/.qingcloud/config.yaml: no such file or directory'')"
    using LoadUserConfig_install_outcome [of ?env None Config_zero empty_world] b by simp
  have 2: "fst (LoadUserConfig ?ok Config_zero empty_world) = None"
    using LoadUserConfig_install_outcome [of ?ok None Config_zero empty_world] c d by simp
  show ?thesis using a b c 1 2 by (simp only: simp_thms)
qed

text \<open>
  The claim as stated (the call fails only if the read fails) fails: no file, an
  installer whose write stops after 40 bytes and reports it; the read then succeeds,
  and the call fails with the error of the decode.
\<close>

theorem LoadUserConfig_decode_error_counterexample:
  "os_Stat empty_world
     (GetUserConfigFilePath
        (example_env example_default
           \<lparr>InstallDefaultUserConfig :=
              install_truncated example_user_path example_default 40\<rparr>)) =
     Some (FileIOError
             ''stat /home/user/.qingcloud/config.yaml: no such file or directory'')
   \<and> snd (InstallDefaultUserConfig
            (example_env example_default
               \<lparr>InstallDefaultUserConfig :=
                  install_truncated example_user_path example_default 40\<rparr>)
            empty_world) = Some (InstallError ''write: no space left on device'')
   \<and> ioutil_ReadFile
        (fst (InstallDefaultUserConfig
                (example_env example_default
                   \<lparr>InstallDefaultUserConfig :=
                      install_truncated example_user_path example_default 40\<rparr>)
                empty_world))
        ''/home/user/.qingcloud/config.yaml'' =
       Inr ''# services configuration\<newline>qy_access_key_i''
   \<and> fst (LoadUserConfig
            (example_env example_default
               \<lparr>InstallDefaultUserConfig :=
                  install_truncated example_user_path example_default 40\<rparr>)
            Config_zero empty_world) =
       Some (DecodeError ''yaml: not a structured document'')"
  by code_simp


end
